theory Spec2Isabelle
  imports Complex_Main "HOL-Library.Word"
begin

section \<open>Data model\<close>

subsection \<open>Floating-point values and the MPFR status flags\<close>

text \<open>
  An \<open>mpfr_t\<close> holds NaN, a signed infinity, a signed zero or a nonzero finite number.
  The sign bit is \<open>True\<close> for negative. A finite number is kept as its exact rational
  value (always nonzero in a value the library produces).
\<close>

datatype mpfr = NaN | Inf bool | Zero bool | Num rat

datatype mpfr_rnd_t = MPFR_RNDN | MPFR_RNDZ | MPFR_RNDU | MPFR_RNDD

datatype mpfr_flag =
  FLAG_UNDERFLOW | FLAG_OVERFLOW | FLAG_NAN | FLAG_INEXACT | FLAG_ERANGE | FLAG_DIVBY0

text \<open>The \<open>MPFR_Object\<close> of gmpy2: the number \<open>f\<close> and the ternary value \<open>rc\<close> of the
  operation that produced it.\<close>

record MPFR_Object =
  f :: mpfr
  rc :: int

subsection \<open>Python objects\<close>

text \<open>
  The operands are \<open>PyObject *\<close>: a Python integer, the gmpy2 types \<open>mpz\<close>, \<open>xmpz\<close>,
  \<open>mpq\<close>, \<open>mpfr\<close>, \<open>mpc\<close>, or an object that is not a number (a string stands for
  those).
\<close>

datatype pyobj =
    PyLong int
  | MPZ int
  | XMPZ int
  | MPQ rat
  | MPFR MPFR_Object
  | MPC MPFR_Object MPFR_Object
  | PyStr string

subsection \<open>Contexts\<close>

datatype trap =
  TRAP_UNDERFLOW | TRAP_OVERFLOW | TRAP_INEXACT | TRAP_INVALID | TRAP_ERANGE | TRAP_DIVZERO

text \<open>
  The fields of \<open>gmpy_context\<close> that \<open>gmpy2_divmod.c\<close> reads or writes. The C field
  \<open>traps\<close> is a bit mask tested with \<open>traps & TRAP_X\<close>; the mask constants are declared
  outside this file, so the mask is kept as the set of enabled traps.
\<close>

record gmpy_context =
  mpfr_prec :: nat
  mpfr_round :: mpfr_rnd_t
  emax :: int
  emin :: int
  subnormalize :: bool
  underflow :: bool
  overflow :: bool
  inexact :: bool
  invalid :: bool
  erange :: bool
  divzero :: bool
  traps :: "trap set"
  readonly :: bool

record CTXT_Object =
  ob_refcnt :: nat
  ctx :: gmpy_context

subsection \<open>The state of the interpreter\<close>

text \<open>
  Context objects live in a store, since \<open>GMPy_Context_DivMod\<close> depends on which
  object is written: \<open>ctxts w a\<close> is the context object at address \<open>a\<close>, addresses
  below \<open>brk w\<close> have been handed out, an object whose \<open>ob_refcnt\<close> is 0 has been
  deallocated. \<open>current w\<close> is the address of the process-wide current context,
  \<open>gmpfr_flags w\<close> the global MPFR status flags. When \<open>alloc_ok w\<close> is false the
  allocator is out of memory and every constructor returns \<open>NULL\<close>.
\<close>

record world =
  ctxts :: "nat \<Rightarrow> CTXT_Object"
  brk :: nat
  current :: nat
  gmpfr_flags :: "mpfr_flag set"
  alloc_ok :: bool

subsection \<open>Results and owned references\<close>

datatype exc =
    MemoryError
  | SystemError
  | TypeError
  | ZeroDivisionError
  | GMPyExc_DivZero
  | GMPyExc_Invalid
  | GMPyExc_Underflow
  | GMPyExc_Overflow
  | GMPyExc_Inexact

text \<open>
  What a function returns: \<open>NULL\<close> with an exception set, the \<open>Py_NotImplemented\<close>
  singleton, or the 2-tuple (quotient, remainder).
\<close>

datatype ret =
    Raised exc string
  | NotImplemented
  | Tuple pyobj pyobj

text \<open>
  The local variables of a call that own a reference. Every function below returns, next
  to its result, the list of references it still owns when it returns: a constructor adds
  the variable, \<open>Py_DECREF\<close> removes it, \<open>PyTuple_SET_ITEM\<close> moves it into the tuple.
  Whatever is left in the list when the function returns is never released.
\<close>

datatype cell = Result | Rem | Quo | TempX | TempY

definition Py_DECREF :: "cell \<Rightarrow> cell list \<Rightarrow> cell list" where
  "Py_DECREF c held = remove1 c held"

text \<open>\<open>PyTuple_SET_ITEM(result, i, v)\<close> steals the reference to \<open>v\<close>: from then on it
  belongs to the tuple.\<close>

definition PyTuple_SET_ITEM :: "cell \<Rightarrow> cell list \<Rightarrow> cell list" where
  "PyTuple_SET_ITEM v held = remove1 v held"

text \<open>Returning \<open>result\<close> passes the reference to the caller.\<close>

definition return_result :: "cell list \<Rightarrow> cell list" where
  "return_result held = remove1 Result held"

section \<open>Type tests\<close>

text \<open>
  Modelled from the spec: the macros \<open>CHECK_MPZANY\<close>, \<open>PyIntOrLong_Check\<close>,
  \<open>IS_INTEGER\<close>, \<open>IS_RATIONAL\<close>, \<open>IS_REAL\<close> and \<open>IS_COMPLEX\<close> are declared outside
  \<open>gmpy2_divmod.c\<close>. The spec orders the layers by convertibility,
  Integer \<open>\<subset>\<close> Rational \<open>\<subset>\<close> Real \<open>\<subset>\<close> Complex, and an object that is not a number
  belongs to none.
\<close>

fun CHECK_MPZANY :: "pyobj \<Rightarrow> bool" where
  "CHECK_MPZANY (MPZ _) = True"
| "CHECK_MPZANY (XMPZ _) = True"
| "CHECK_MPZANY _ = False"

fun PyIntOrLong_Check :: "pyobj \<Rightarrow> bool" where
  "PyIntOrLong_Check (PyLong _) = True"
| "PyIntOrLong_Check _ = False"

definition IS_INTEGER :: "pyobj \<Rightarrow> bool" where
  "IS_INTEGER x = (CHECK_MPZANY x \<or> PyIntOrLong_Check x)"

fun MPQ_Check :: "pyobj \<Rightarrow> bool" where
  "MPQ_Check (MPQ _) = True"
| "MPQ_Check _ = False"

fun MPFR_Check :: "pyobj \<Rightarrow> bool" where
  "MPFR_Check (MPFR _) = True"
| "MPFR_Check _ = False"

fun MPC_Check :: "pyobj \<Rightarrow> bool" where
  "MPC_Check (MPC _ _) = True"
| "MPC_Check _ = False"

definition IS_RATIONAL :: "pyobj \<Rightarrow> bool" where
  "IS_RATIONAL x = (IS_INTEGER x \<or> MPQ_Check x)"

definition IS_REAL :: "pyobj \<Rightarrow> bool" where
  "IS_REAL x = (IS_RATIONAL x \<or> MPFR_Check x)"

definition IS_COMPLEX :: "pyobj \<Rightarrow> bool" where
  "IS_COMPLEX x = (IS_REAL x \<or> MPC_Check x)"

section \<open>Contexts: resolution and access\<close>

text \<open>
  Modelled from the spec: the macro \<open>CHECK_CONTEXT_SET_EXPONENT\<close> is declared outside
  \<open>gmpy2_divmod.c\<close>. A \<open>NULL\<close> context stands for the process-wide current context; the
  exponent range of the context reaches the floating-point operations through
  \<open>fmt_of\<close> below.
\<close>

definition CHECK_CONTEXT_SET_EXPONENT :: "nat option \<Rightarrow> world \<Rightarrow> nat" where
  "CHECK_CONTEXT_SET_EXPONENT context w =
     (case context of None \<Rightarrow> current w | Some a \<Rightarrow> a)"

definition ctx_at :: "world \<Rightarrow> nat \<Rightarrow> gmpy_context" where
  "ctx_at w a = ctx (ctxts w a)"

text \<open>An assignment \<open>context->ctx.field = v\<close>.\<close>

definition ctx_upd :: "nat \<Rightarrow> (gmpy_context \<Rightarrow> gmpy_context) \<Rightarrow> world \<Rightarrow> world" where
  "ctx_upd a g w = w\<lparr>ctxts := (ctxts w)(a := (ctxts w a)\<lparr>ctx := g (ctx (ctxts w a))\<rparr>)\<rparr>"

section \<open>Integer divmod\<close>

subsection \<open>The GMP primitives\<close>

text \<open>
  Modelled from the spec: the integer primitives belong to the external bignum library
  (spec, section 1: assumed correct). \<open>mpz_fdiv_qr\<close> is floored division with
  remainder, which is \<open>div\<close> and \<open>mod\<close> on \<open>int\<close>; the \<open>_ui\<close> variants take the divisor
  as an \<open>unsigned long\<close>; \<open>mpz_cdiv_qr_ui\<close> rounds the quotient up and sets
  \<open>r = n - q * d\<close>. The callers exclude a zero divisor.
\<close>

definition mpz_fdiv_qr :: "int \<Rightarrow> int \<Rightarrow> int \<times> int" where
  "mpz_fdiv_qr n d = (n div d, n mod d)"

definition mpz_fdiv_qr_ui :: "int \<Rightarrow> 64 word \<Rightarrow> int \<times> int" where
  "mpz_fdiv_qr_ui n d = (n div uint d, n mod uint d)"

definition mpz_cdiv_qr_ui :: "int \<Rightarrow> 64 word \<Rightarrow> int \<times> int" where
  "mpz_cdiv_qr_ui n d = (let q = - ((- n) div uint d) in (q, n - q * uint d))"

definition mpz_neg :: "int \<Rightarrow> int" where
  "mpz_neg n = - n"

definition mpz_sgn :: "int \<Rightarrow> int" where
  "mpz_sgn n = sgn n"

subsection \<open>Conversions\<close>

text \<open>
  Modelled from the spec: \<open>PyLong_AsSIAndOverflow\<close> is defined outside
  \<open>gmpy2_divmod.c\<close>. It returns the value as a signed machine word (\<open>mpir_si\<close>, 64 bits
  here) and reports overflow when the value does not fit.
\<close>

type_synonym mpir_si = "64 word"

fun py_int_value :: "pyobj \<Rightarrow> int" where
  "py_int_value (PyLong n) = n"
| "py_int_value _ = 0"

definition PyLong_AsSIAndOverflow :: "pyobj \<Rightarrow> mpir_si \<times> bool" where
  "PyLong_AsSIAndOverflow y =
     (let n = py_int_value y in
      if - (2 ^ 63) \<le> n \<and> n < 2 ^ 63 then (word_of_int n, False) else (- 1, True))"

definition mpz_set_PyIntOrLong :: "pyobj \<Rightarrow> int" where
  "mpz_set_PyIntOrLong y = py_int_value y"

text \<open>The macro \<open>MPZ(x)\<close>: the \<open>mpz_t\<close> inside an \<open>mpz\<close> or \<open>xmpz\<close> object. It is only
  applied under \<open>CHECK_MPZANY\<close>.\<close>

fun MPZ_z :: "pyobj \<Rightarrow> int" where
  "MPZ_z (MPZ n) = n"
| "MPZ_z (XMPZ n) = n"
| "MPZ_z _ = 0"

text \<open>Modelled from the spec: \<open>GMPy_MPZ_From_Integer_Temp\<close> is defined outside
  \<open>gmpy2_divmod.c\<close>; it converts an Integer operand to an \<open>mpz\<close> and returns \<open>NULL\<close>
  for anything else.\<close>

fun GMPy_MPZ_From_Integer_Temp :: "pyobj \<Rightarrow> int option" where
  "GMPy_MPZ_From_Integer_Temp (PyLong n) = Some n"
| "GMPy_MPZ_From_Integer_Temp (MPZ n) = Some n"
| "GMPy_MPZ_From_Integer_Temp (XMPZ n) = Some n"
| "GMPy_MPZ_From_Integer_Temp _ = None"

subsection \<open>GMPy_Integer_DivMod\<close>

text \<open>The three \<open>Py_DECREF\<close> of an error exit taken after the allocation of \<open>result\<close>,
  \<open>rem\<close> and \<open>quo\<close>.\<close>

definition decref_containers :: "cell list \<Rightarrow> cell list" where
  "decref_containers held = Py_DECREF Result (Py_DECREF Quo (Py_DECREF Rem held))"

text \<open>The release of the converted operands \<open>tempx\<close> and \<open>tempy\<close>.\<close>

definition decref_temps :: "cell list \<Rightarrow> cell list" where
  "decref_temps held = Py_DECREF TempY (Py_DECREF TempX held)"

text \<open>The two \<open>PyTuple_SET_ITEM\<close> and the \<open>return result\<close> of a successful exit.\<close>

definition return_tuple :: "cell list \<Rightarrow> cell list" where
  "return_tuple held = return_result (PyTuple_SET_ITEM Rem (PyTuple_SET_ITEM Quo held))"

text \<open>
  \<open>CHECK_CONTEXT_SET_EXPONENT\<close> opens the function; the integer algorithm hands the
  context to the constructors only, so the state is returned as it came. The branches
  follow the source: an \<open>mpz\<close> or \<open>xmpz\<close> divided by a Python integer (the fast
  path), by an \<open>mpz\<close> or \<open>xmpz\<close>, a Python integer divided by one, and two
  Integer operands of any kind.
\<close>

definition GMPy_Integer_DivMod ::
  "pyobj \<Rightarrow> pyobj \<Rightarrow> nat option \<Rightarrow> world \<Rightarrow> ret \<times> cell list \<times> world" where
  "GMPy_Integer_DivMod x y context w =
    (if \<not> alloc_ok w then (Raised MemoryError [], [], w)
     else let held = [Result, Rem, Quo] in
       if CHECK_MPZANY x \<and> PyIntOrLong_Check y then
         (let (temp_si, overflow) = PyLong_AsSIAndOverflow y in
          if overflow then
            (let tempz = mpz_set_PyIntOrLong y;
                 (q, r) = mpz_fdiv_qr (MPZ_z x) tempz
             in (Tuple (MPZ q) (MPZ r), return_tuple held, w))
          else if 0 <s temp_si then
            (let (q, r) = mpz_fdiv_qr_ui (MPZ_z x) temp_si
             in (Tuple (MPZ q) (MPZ r), return_tuple held, w))
          else if temp_si = 0 then
            (Raised ZeroDivisionError ''division or modulo by zero'',
             decref_containers held, w)
          else
            (let (q, r) = mpz_cdiv_qr_ui (MPZ_z x) (- temp_si)
             in (Tuple (MPZ (mpz_neg q)) (MPZ r), return_tuple held, w)))
       else if CHECK_MPZANY x \<and> CHECK_MPZANY y then
         (if mpz_sgn (MPZ_z y) = 0 then
            (Raised ZeroDivisionError ''division or modulo by zero'',
             decref_containers held, w)
          else
            (let (q, r) = mpz_fdiv_qr (MPZ_z x) (MPZ_z y)
             in (Tuple (MPZ q) (MPZ r), return_tuple held, w)))
       else if CHECK_MPZANY y \<and> PyIntOrLong_Check x then
         (if mpz_sgn (MPZ_z y) = 0 then
            (Raised ZeroDivisionError ''division or modulo by zero'',
             decref_containers held, w)
          else
            (let tempz = mpz_set_PyIntOrLong x;
                 (q, r) = mpz_fdiv_qr tempz (MPZ_z y)
             in (Tuple (MPZ q) (MPZ r), return_tuple held, w)))
       else if IS_INTEGER x \<and> IS_INTEGER y then
         (case (GMPy_MPZ_From_Integer_Temp x, GMPy_MPZ_From_Integer_Temp y) of
            (Some tempx, Some tempy) \<Rightarrow>
              (let held = held @ [TempX, TempY] in
               if mpz_sgn tempy = 0 then
                 (Raised ZeroDivisionError ''division or modulo by zero'',
                  decref_containers (decref_temps held), w)
               else
                 (let (q, r) = mpz_fdiv_qr tempx tempy
                  in (Tuple (MPZ q) (MPZ r), return_tuple (decref_temps held), w)))
          | _ \<Rightarrow>
              (Raised SystemError ''Could not convert Integer to mpz.'',
               decref_containers held, w))
       else (NotImplemented, Py_DECREF Result held, w))"

section \<open>Rational divmod\<close>

text \<open>
  Modelled from the spec: the rational primitives belong to the external bignum library.
  An \<open>mpq_t\<close> is kept in lowest terms with a positive denominator, which is what
  \<open>quotient_of\<close> returns; \<open>mpz_fdiv_q\<close> is the quotient of floored division.
\<close>

definition mpq_sgn :: "rat \<Rightarrow> int" where
  "mpq_sgn q = (if q < 0 then - 1 else if q = 0 then 0 else 1)"

definition mpq_div :: "rat \<Rightarrow> rat \<Rightarrow> rat" where
  "mpq_div a b = a / b"

definition mpq_numref :: "rat \<Rightarrow> int" where
  "mpq_numref q = fst (quotient_of q)"

definition mpq_denref :: "rat \<Rightarrow> int" where
  "mpq_denref q = snd (quotient_of q)"

definition mpz_fdiv_q :: "int \<Rightarrow> int \<Rightarrow> int" where
  "mpz_fdiv_q n d = n div d"

definition mpq_set_z :: "int \<Rightarrow> rat" where
  "mpq_set_z n = of_int n"

definition mpq_mul :: "rat \<Rightarrow> rat \<Rightarrow> rat" where
  "mpq_mul a b = a * b"

definition mpq_sub :: "rat \<Rightarrow> rat \<Rightarrow> rat" where
  "mpq_sub a b = a - b"

text \<open>Modelled from the spec: \<open>GMPy_MPQ_From_Number_Temp\<close> is defined outside
  \<open>gmpy2_divmod.c\<close>; it converts a Rational operand to an \<open>mpq\<close> and returns \<open>NULL\<close>
  for anything else.\<close>

fun GMPy_MPQ_From_Number_Temp :: "pyobj \<Rightarrow> rat option" where
  "GMPy_MPQ_From_Number_Temp (PyLong n) = Some (of_int n)"
| "GMPy_MPQ_From_Number_Temp (MPZ n) = Some (of_int n)"
| "GMPy_MPQ_From_Number_Temp (XMPZ n) = Some (of_int n)"
| "GMPy_MPQ_From_Number_Temp (MPQ q) = Some q"
| "GMPy_MPQ_From_Number_Temp _ = None"

text \<open>The converted operands that exist own a reference each.\<close>

definition hold_temps :: "'a option \<Rightarrow> 'b option \<Rightarrow> cell list \<Rightarrow> cell list" where
  "hold_temps tx ty held =
     held @ (if tx = None then [] else [TempX]) @ (if ty = None then [] else [TempY])"

text \<open>The label \<open>error:\<close> of \<open>GMPy_Rational_DivMod\<close> and \<open>GMPy_Real_DivMod\<close>.\<close>

definition error_exit :: "cell list \<Rightarrow> cell list" where
  "error_exit held = decref_containers (decref_temps held)"

definition GMPy_Rational_DivMod ::
  "pyobj \<Rightarrow> pyobj \<Rightarrow> nat option \<Rightarrow> world \<Rightarrow> ret \<times> cell list \<times> world" where
  "GMPy_Rational_DivMod x y context w =
    (if \<not> alloc_ok w then (Raised MemoryError [], [], w)
     else let held = [Result, Rem, Quo] in
       if IS_RATIONAL x \<and> IS_RATIONAL y then
         (case (GMPy_MPQ_From_Number_Temp x, GMPy_MPQ_From_Number_Temp y) of
            (Some tempx, Some tempy) \<Rightarrow>
              (let held = hold_temps (Some tempx) (Some tempy) held in
               if mpq_sgn tempy = 0 then
                 (Raised ZeroDivisionError ''division or modulo by zero'', error_exit held, w)
               else
                 (let rem = mpq_div tempx tempy;
                      quo = mpz_fdiv_q (mpq_numref rem) (mpq_denref rem);
                      rem = mpq_set_z quo;
                      rem = mpq_mul rem tempy;
                      rem = mpq_sub tempx rem
                  in (Tuple (MPZ quo) (MPQ rem), return_tuple (decref_temps held), w)))
          | (tx, ty) \<Rightarrow>
              (Raised SystemError ''Could not convert Rational to mpq.'',
               error_exit (hold_temps tx ty held), w))
       else (NotImplemented, Py_DECREF Result held, w))"

section \<open>Real divmod\<close>

subsection \<open>The MPFR primitives\<close>

text \<open>
  Modelled from the spec: the floating-point primitives belong to the external bigfloat
  library, MPFR (spec, sections 1 and 6: assumed correct). What they do on NaN,
  infinities and zeros follows the conventions of that library and is written out
  below. What they do on finite numbers depends on the precision, the rounding mode and
  the exponent range, and is left to a parameter \<open>L\<close>: \<open>round_to L fm rnd v\<close> is the
  correct rounding of the exact nonzero value \<open>v\<close> (the result, its ternary value and the
  flags raised), \<open>subnormal_round L fm rnd v t\<close> is what \<open>mpfr_subnormalize\<close> does to the
  finite number \<open>v\<close> with ternary value \<open>t\<close>. The format \<open>fm\<close> is the precision and the
  exponent range (emin, emax).
\<close>

type_synonym fmt = "nat \<times> int \<times> int"

type_synonym mpfr_result = "mpfr \<times> int \<times> mpfr_flag set"

record mpfr_lib =
  round_to :: "fmt \<Rightarrow> mpfr_rnd_t \<Rightarrow> rat \<Rightarrow> mpfr_result"
  subnormal_round :: "fmt \<Rightarrow> mpfr_rnd_t \<Rightarrow> rat \<Rightarrow> int \<Rightarrow> mpfr_result"

definition fmt_of :: "gmpy_context \<Rightarrow> fmt" where
  "fmt_of g = (mpfr_prec g, emin g, emax g)"

fun mpfr_zero_p :: "mpfr \<Rightarrow> bool" where
  "mpfr_zero_p (Zero _) = True"
| "mpfr_zero_p _ = False"

fun mpfr_nan_p :: "mpfr \<Rightarrow> bool" where
  "mpfr_nan_p NaN = True"
| "mpfr_nan_p _ = False"

fun mpfr_inf_p :: "mpfr \<Rightarrow> bool" where
  "mpfr_inf_p (Inf _) = True"
| "mpfr_inf_p _ = False"

text \<open>The sign bit. The callers apply it to numbers and infinities only.\<close>

fun mpfr_signbit :: "mpfr \<Rightarrow> bool" where
  "mpfr_signbit (Inf s) = s"
| "mpfr_signbit (Zero s) = s"
| "mpfr_signbit (Num v) = (v < 0)"
| "mpfr_signbit NaN = False"

fun mpfr_sgn :: "mpfr \<Rightarrow> int" where
  "mpfr_sgn (Inf s) = (if s then - 1 else 1)"
| "mpfr_sgn (Zero _) = 0"
| "mpfr_sgn (Num v) = (if v < 0 then - 1 else 1)"
| "mpfr_sgn NaN = 0"

definition mpfr_set_nan :: mpfr_result where
  "mpfr_set_nan = (NaN, 0, {FLAG_NAN})"

definition mpfr_set_zero :: "int \<Rightarrow> mpfr" where
  "mpfr_set_zero sign = Zero (sign < 0)"

definition mpfr_set_inf :: "int \<Rightarrow> mpfr" where
  "mpfr_set_inf sign = Inf (sign < 0)"

text \<open>\<open>mpfr_set_si\<close> with the small constants the callers use: the value is exact.\<close>

definition mpfr_set_si :: "int \<Rightarrow> mpfr" where
  "mpfr_set_si n = (if n = 0 then Zero False else Num (of_int n))"

fun mpfr_set :: "mpfr_lib \<Rightarrow> fmt \<Rightarrow> mpfr_rnd_t \<Rightarrow> mpfr \<Rightarrow> mpfr_result" where
  "mpfr_set L fm rnd NaN = (NaN, 0, {FLAG_NAN})"
| "mpfr_set L fm rnd (Inf s) = (Inf s, 0, {})"
| "mpfr_set L fm rnd (Zero s) = (Zero s, 0, {})"
| "mpfr_set L fm rnd (Num v) = round_to L fm rnd v"

text \<open>
  Division: NaN for a NaN operand, for \<open>Inf / Inf\<close> and for \<open>0 / 0\<close>; a finite nonzero
  number divided by zero is an infinity and raises the divide-by-zero flag; the sign of
  an infinite or zero result is the exclusive or of the operands' signs.
\<close>

fun mpfr_div :: "mpfr_lib \<Rightarrow> fmt \<Rightarrow> mpfr_rnd_t \<Rightarrow> mpfr \<Rightarrow> mpfr \<Rightarrow> mpfr_result" where
  "mpfr_div L fm rnd NaN _ = (NaN, 0, {FLAG_NAN})"
| "mpfr_div L fm rnd _ NaN = (NaN, 0, {FLAG_NAN})"
| "mpfr_div L fm rnd (Inf s) (Inf t) = (NaN, 0, {FLAG_NAN})"
| "mpfr_div L fm rnd (Inf s) y = (Inf (s \<noteq> mpfr_signbit y), 0, {})"
| "mpfr_div L fm rnd x (Inf t) = (Zero (mpfr_signbit x \<noteq> t), 0, {})"
| "mpfr_div L fm rnd (Zero s) (Zero t) = (NaN, 0, {FLAG_NAN})"
| "mpfr_div L fm rnd (Num v) (Zero t) = (Inf ((v < 0) \<noteq> t), 0, {FLAG_DIVBY0})"
| "mpfr_div L fm rnd (Zero s) (Num u) = (Zero (s \<noteq> (u < 0)), 0, {})"
| "mpfr_div L fm rnd (Num v) (Num u) = round_to L fm rnd (v / u)"

text \<open>
  \<open>mpfr_floor\<close> applied in place: the floor of a number fits the precision the number
  has, so there is no second rounding; the inexact flag is raised when the number was
  not an integer.
\<close>

fun mpfr_floor :: "mpfr \<Rightarrow> mpfr_result" where
  "mpfr_floor NaN = (NaN, 0, {FLAG_NAN})"
| "mpfr_floor (Inf s) = (Inf s, 0, {})"
| "mpfr_floor (Zero s) = (Zero s, 0, {})"
| "mpfr_floor (Num v) =
     (if of_int \<lfloor>v\<rfloor> = v then (Num v, 0, {})
      else ((if \<lfloor>v\<rfloor> = 0 then Zero False else Num (of_int \<lfloor>v\<rfloor>)), - 2, {FLAG_INEXACT}))"

text \<open>The sign of an exact zero sum: the common sign of the terms when they agree,
  otherwise positive, except when rounding downwards.\<close>

definition zero_sum_sign :: "mpfr_rnd_t \<Rightarrow> bool \<Rightarrow> bool \<Rightarrow> bool" where
  "zero_sum_sign rnd s t = (if s = t then s else rnd = MPFR_RNDD)"

text \<open>
  \<open>mpfr_fms a b c\<close> is \<open>a * b - c\<close> with a single rounding. On special values it
  behaves like a multiplication followed by a subtraction: \<open>Inf * 0\<close> and
  \<open>Inf - Inf\<close> are NaN.
\<close>

fun mpfr_fms :: "mpfr_lib \<Rightarrow> fmt \<Rightarrow> mpfr_rnd_t \<Rightarrow> mpfr \<Rightarrow> mpfr \<Rightarrow> mpfr \<Rightarrow> mpfr_result" where
  "mpfr_fms L fm rnd NaN _ _ = (NaN, 0, {FLAG_NAN})"
| "mpfr_fms L fm rnd _ NaN _ = (NaN, 0, {FLAG_NAN})"
| "mpfr_fms L fm rnd _ _ NaN = (NaN, 0, {FLAG_NAN})"
| "mpfr_fms L fm rnd (Inf s) (Zero t) _ = (NaN, 0, {FLAG_NAN})"
| "mpfr_fms L fm rnd (Zero s) (Inf t) _ = (NaN, 0, {FLAG_NAN})"
| "mpfr_fms L fm rnd (Inf s) b (Inf u) =
     (if (s \<noteq> mpfr_signbit b) = u then (NaN, 0, {FLAG_NAN}) else (Inf (s \<noteq> mpfr_signbit b), 0, {}))"
| "mpfr_fms L fm rnd a (Inf t) (Inf u) =
     (if (mpfr_signbit a \<noteq> t) = u then (NaN, 0, {FLAG_NAN}) else (Inf (mpfr_signbit a \<noteq> t), 0, {}))"
| "mpfr_fms L fm rnd (Inf s) b _ = (Inf (s \<noteq> mpfr_signbit b), 0, {})"
| "mpfr_fms L fm rnd a (Inf t) _ = (Inf (mpfr_signbit a \<noteq> t), 0, {})"
| "mpfr_fms L fm rnd _ _ (Inf u) = (Inf (\<not> u), 0, {})"
| "mpfr_fms L fm rnd (Num v) (Num u) (Num z) =
     (if v * u - z = 0 then (Zero (rnd = MPFR_RNDD), 0, {}) else round_to L fm rnd (v * u - z))"
| "mpfr_fms L fm rnd (Num v) (Num u) (Zero _) = round_to L fm rnd (v * u)"
| "mpfr_fms L fm rnd a b (Num z) = round_to L fm rnd (- z)"
| "mpfr_fms L fm rnd a b (Zero u) =
     (Zero (zero_sum_sign rnd (mpfr_signbit a \<noteq> mpfr_signbit b) (\<not> u)), 0, {})"

fun mpfr_neg :: "mpfr \<Rightarrow> mpfr_result" where
  "mpfr_neg NaN = (NaN, 0, {FLAG_NAN})"
| "mpfr_neg (Inf s) = (Inf (\<not> s), 0, {})"
| "mpfr_neg (Zero s) = (Zero (\<not> s), 0, {})"
| "mpfr_neg (Num v) = (Num (- v), 0, {})"

text \<open>\<open>mpfr_subnormalize\<close> leaves NaN, infinities and zeros as they are and hands the
  ternary value on, raising the inexact flag when it is not zero.\<close>

fun mpfr_subnormalize :: "mpfr_lib \<Rightarrow> fmt \<Rightarrow> mpfr_rnd_t \<Rightarrow> mpfr \<Rightarrow> int \<Rightarrow> mpfr_result" where
  "mpfr_subnormalize L fm rnd (Num v) t = subnormal_round L fm rnd v t"
| "mpfr_subnormalize L fm rnd x t = (x, t, (if t = 0 then {} else {FLAG_INEXACT}))"

subsection \<open>The global MPFR flags\<close>

definition mpfr_clear_flags :: "world \<Rightarrow> world" where
  "mpfr_clear_flags w = w\<lparr>gmpfr_flags := {}\<rparr>"

definition raise_flags :: "mpfr_flag set \<Rightarrow> world \<Rightarrow> world" where
  "raise_flags fl w = w\<lparr>gmpfr_flags := gmpfr_flags w \<union> fl\<rparr>"

definition mpfr_underflow_p :: "world \<Rightarrow> bool" where
  "mpfr_underflow_p w = (FLAG_UNDERFLOW \<in> gmpfr_flags w)"

definition mpfr_overflow_p :: "world \<Rightarrow> bool" where
  "mpfr_overflow_p w = (FLAG_OVERFLOW \<in> gmpfr_flags w)"

definition mpfr_inexflag_p :: "world \<Rightarrow> bool" where
  "mpfr_inexflag_p w = (FLAG_INEXACT \<in> gmpfr_flags w)"

subsection \<open>Objects, conversions and the context macros\<close>

text \<open>Modelled from the spec: \<open>GMPy_MPFR_New\<close> is defined outside \<open>gmpy2_divmod.c\<close>.
  A new \<open>mpfr\<close> object has the precision of the context, holds NaN as \<open>mpfr_init2\<close>
  leaves it, and its \<open>rc\<close> is 0.\<close>

definition GMPy_MPFR_New :: MPFR_Object where
  "GMPy_MPFR_New = \<lparr>f = NaN, rc = 0\<rparr>"

text \<open>Modelled from the spec: \<open>GMPy_MPFR_From_Real_Temp\<close> is defined outside
  \<open>gmpy2_divmod.c\<close>. An \<open>mpfr\<close> operand is used as it is; an Integer or Rational
  operand is rounded to the precision of the context in its rounding mode; anything
  else gives \<open>NULL\<close>. The flags the rounding raises come with the object.\<close>

definition mpfr_set_q :: "mpfr_lib \<Rightarrow> gmpy_context \<Rightarrow> rat \<Rightarrow> MPFR_Object \<times> mpfr_flag set" where
  "mpfr_set_q L g q =
     (if q = 0 then (\<lparr>f = Zero False, rc = 0\<rparr>, {})
      else let (v, t, fl) = round_to L (fmt_of g) (mpfr_round g) q in (\<lparr>f = v, rc = t\<rparr>, fl))"

fun GMPy_MPFR_From_Real_Temp ::
  "mpfr_lib \<Rightarrow> pyobj \<Rightarrow> gmpy_context \<Rightarrow> (MPFR_Object \<times> mpfr_flag set) option" where
  "GMPy_MPFR_From_Real_Temp L (MPFR ob) g = Some (ob, {})"
| "GMPy_MPFR_From_Real_Temp L (PyLong n) g = Some (mpfr_set_q L g (of_int n))"
| "GMPy_MPFR_From_Real_Temp L (MPZ n) g = Some (mpfr_set_q L g (of_int n))"
| "GMPy_MPFR_From_Real_Temp L (XMPZ n) g = Some (mpfr_set_q L g (of_int n))"
| "GMPy_MPFR_From_Real_Temp L (MPQ q) g = Some (mpfr_set_q L g q)"
| "GMPy_MPFR_From_Real_Temp L _ g = None"

text \<open>Modelled from the spec: the macro \<open>SUBNORMALIZE\<close> is declared outside
  \<open>gmpy2_divmod.c\<close>. It applies the subnormal renormalization of the library to a
  result when the context asks for it.\<close>

definition SUBNORMALIZE ::
  "mpfr_lib \<Rightarrow> nat \<Rightarrow> MPFR_Object \<Rightarrow> world \<Rightarrow> MPFR_Object \<times> world" where
  "SUBNORMALIZE L c v w =
     (if subnormalize (ctx_at w c) then
        (let (x, t, fl) = mpfr_subnormalize L (fmt_of (ctx_at w c)) (mpfr_round (ctx_at w c))
                            (f v) (rc v)
         in (\<lparr>f = x, rc = t\<rparr>, raise_flags fl w))
      else (v, w))"

text \<open>Modelled from the spec: the macro \<open>MERGE_FLAGS\<close> is declared outside
  \<open>gmpy2_divmod.c\<close>. It merges the newly raised floating-point flags (underflow,
  overflow, inexact) into the sticky flags of the context.\<close>

definition MERGE_FLAGS :: "nat \<Rightarrow> world \<Rightarrow> world" where
  "MERGE_FLAGS c w =
     ctx_upd c (\<lambda>g. g\<lparr>underflow := underflow g \<or> mpfr_underflow_p w,
                       overflow := overflow g \<or> mpfr_overflow_p w,
                       inexact := inexact g \<or> mpfr_inexflag_p w\<rparr>) w"

definition GET_MPFR_ROUND :: "world \<Rightarrow> nat \<Rightarrow> mpfr_rnd_t" where
  "GET_MPFR_ROUND w c = mpfr_round (ctx_at w c)"

definition trap_enabled :: "world \<Rightarrow> nat \<Rightarrow> trap \<Rightarrow> bool" where
  "trap_enabled w c t = (t \<in> traps (ctx_at w c))"

subsection \<open>The messages\<close>

definition msg_convert :: string where
  "msg_convert = ''Can not convert Real to '' @ [CHR 0x27] @ ''mpfr'' @ [CHR 0x27]"

definition msg_mpfr :: "string \<Rightarrow> string" where
  "msg_mpfr m = [CHR 0x27] @ ''mpfr'' @ [CHR 0x27] @ m"

subsection \<open>GMPy_Real_DivMod\<close>

text \<open>
  Lines 292 to 329: the special values and the general case. The result is the
  exception of a trapped invalid operation, or the pair (quo, rem).
\<close>

definition Real_DivMod_compute ::
  "mpfr_lib \<Rightarrow> MPFR_Object \<Rightarrow> MPFR_Object \<Rightarrow> nat \<Rightarrow> world
     \<Rightarrow> ((exc \<times> string) + (MPFR_Object \<times> MPFR_Object)) \<times> world" where
  "Real_DivMod_compute L tempx tempy c w0 =
    (let quo = GMPy_MPFR_New; rem = GMPy_MPFR_New;
         w = mpfr_clear_flags w0 in
     if mpfr_nan_p (f tempx) \<or> mpfr_nan_p (f tempy) \<or> mpfr_inf_p (f tempx) then
       (let w = ctx_upd c (\<lambda>g. g\<lparr>invalid := True\<rparr>) w in
        if trap_enabled w c TRAP_INVALID then
          (Inl (GMPyExc_Invalid, msg_mpfr '' invalid operation in divmod''), w)
        else
          (let (q, _, fq) = mpfr_set_nan; (r, _, fr) = mpfr_set_nan
           in (Inr (quo\<lparr>f := q\<rparr>, rem\<lparr>f := r\<rparr>), raise_flags (fq \<union> fr) w)))
     else if mpfr_inf_p (f tempy) then
       (let w = ctx_upd c (\<lambda>g. g\<lparr>invalid := True\<rparr>) w in
        if trap_enabled w c TRAP_INVALID then
          (Inl (GMPyExc_Invalid, msg_mpfr '' invalid operation in divmod''), w)
        else if mpfr_zero_p (f tempx) then
          (Inr (quo\<lparr>f := mpfr_set_zero (mpfr_sgn (f tempy))\<rparr>,
                rem\<lparr>f := mpfr_set_zero (mpfr_sgn (f tempy))\<rparr>), w)
        else if mpfr_signbit (f tempx) \<noteq> mpfr_signbit (f tempy) then
          (Inr (quo\<lparr>f := mpfr_set_si (- 1)\<rparr>,
                rem\<lparr>f := mpfr_set_inf (mpfr_sgn (f tempy))\<rparr>), w)
        else
          (let (r, t, fr) = mpfr_set L (fmt_of (ctx_at w c)) (GET_MPFR_ROUND w c) (f tempx)
           in (Inr (quo\<lparr>f := mpfr_set_si 0\<rparr>, \<lparr>f = r, rc = t\<rparr>), raise_flags fr w)))
     else
       (let (q, _, f1) = mpfr_div L (fmt_of (ctx_at w c)) MPFR_RNDD (f tempx) (f tempy);
            (q, _, f2) = mpfr_floor q;
            (r, t, f3) = mpfr_fms L (fmt_of (ctx_at w c)) (GET_MPFR_ROUND w c) q (f tempy) (f tempx);
            (r, _, f4) = mpfr_neg r
        in (Inr (quo\<lparr>f := q\<rparr>, \<lparr>f = r, rc = t\<rparr>), raise_flags (f1 \<union> f2 \<union> f3 \<union> f4) w)))"

text \<open>Lines 330 to 349: renormalization, the merge of the flags, the traps, the tuple.\<close>

definition Real_DivMod_finish ::
  "mpfr_lib \<Rightarrow> MPFR_Object \<Rightarrow> MPFR_Object \<Rightarrow> nat \<Rightarrow> cell list \<Rightarrow> world
     \<Rightarrow> ret \<times> cell list \<times> world" where
  "Real_DivMod_finish L quo rem c held w0 =
    (let (rem, w) = SUBNORMALIZE L c rem w0;
         (quo, w) = SUBNORMALIZE L c quo w;
         w = MERGE_FLAGS c w in
     if mpfr_underflow_p w \<and> trap_enabled w c TRAP_UNDERFLOW then
       (Raised GMPyExc_Underflow (msg_mpfr '' underflow in divmod''), error_exit held, w)
     else if mpfr_overflow_p w \<and> trap_enabled w c TRAP_OVERFLOW then
       (Raised GMPyExc_Overflow (msg_mpfr '' overflow in divmod''), error_exit held, w)
     else if mpfr_inexflag_p w \<and> trap_enabled w c TRAP_INEXACT then
       (Raised GMPyExc_Inexact (msg_mpfr '' inexact result in divmod''), error_exit held, w)
     else (Tuple (MPFR quo) (MPFR rem), return_tuple (decref_temps held), w))"

definition GMPy_Real_DivMod ::
  "mpfr_lib \<Rightarrow> pyobj \<Rightarrow> pyobj \<Rightarrow> nat option \<Rightarrow> world \<Rightarrow> ret \<times> cell list \<times> world" where
  "GMPy_Real_DivMod L x y context w0 =
    (let c = CHECK_CONTEXT_SET_EXPONENT context w0 in
     if \<not> alloc_ok w0 then (Raised MemoryError [], [], w0)
     else let held = [Result, Rem, Quo] in
       if IS_REAL x \<and> IS_REAL y then
         (case (GMPy_MPFR_From_Real_Temp L x (ctx_at w0 c),
                GMPy_MPFR_From_Real_Temp L y (ctx_at w0 c)) of
            (Some (tempx, fx), Some (tempy, fy)) \<Rightarrow>
              (let held = hold_temps (Some tempx) (Some tempy) held;
                   w = raise_flags (fx \<union> fy) w0;
                   w = (if mpfr_zero_p (f tempy)
                        then ctx_upd c (\<lambda>g. g\<lparr>divzero := True\<rparr>) w else w)
               in
               if mpfr_zero_p (f tempy) \<and> trap_enabled w c TRAP_DIVZERO then
                 (Raised GMPyExc_DivZero (msg_mpfr '' division by zero in divmod''),
                  error_exit held, w)
               else
                 (case Real_DivMod_compute L tempx tempy c w of
                    (Inl (e, m), w) \<Rightarrow> (Raised e m, error_exit held, w)
                  | (Inr (quo, rem), w) \<Rightarrow> Real_DivMod_finish L quo rem c held w))
          | (tx, ty) \<Rightarrow>
              (Raised SystemError msg_convert, error_exit (hold_temps tx ty held), w0))
       else (NotImplemented, Py_DECREF Result held, w0))"

section \<open>Complex divmod\<close>

definition GMPy_Complex_DivMod ::
  "pyobj \<Rightarrow> pyobj \<Rightarrow> nat option \<Rightarrow> world \<Rightarrow> ret \<times> cell list \<times> world" where
  "GMPy_Complex_DivMod x y context w =
     (Raised TypeError ''can't take floor or mod of complex number.'', [], w)"

section \<open>The dispatchers\<close>

definition GMPy_mpz_divmod_fast ::
  "mpfr_lib \<Rightarrow> pyobj \<Rightarrow> pyobj \<Rightarrow> world \<Rightarrow> ret \<times> cell list \<times> world" where
  "GMPy_mpz_divmod_fast L x y w =
     (if IS_INTEGER x \<and> IS_INTEGER y then GMPy_Integer_DivMod x y None w
      else if IS_RATIONAL x \<and> IS_RATIONAL y then GMPy_Rational_DivMod x y None w
      else if IS_REAL x \<and> IS_REAL y then GMPy_Real_DivMod L x y None w
      else if IS_COMPLEX x \<and> IS_COMPLEX y then GMPy_Complex_DivMod x y None w
      else (NotImplemented, [], w))"

definition GMPy_mpq_divmod_fast ::
  "mpfr_lib \<Rightarrow> pyobj \<Rightarrow> pyobj \<Rightarrow> world \<Rightarrow> ret \<times> cell list \<times> world" where
  "GMPy_mpq_divmod_fast L x y w =
     (if IS_RATIONAL x \<and> IS_RATIONAL y then GMPy_Rational_DivMod x y None w
      else if IS_REAL x \<and> IS_REAL y then GMPy_Real_DivMod L x y None w
      else if IS_COMPLEX x \<and> IS_COMPLEX y then GMPy_Complex_DivMod x y None w
      else (NotImplemented, [], w))"

definition GMPy_mpfr_divmod_fast ::
  "mpfr_lib \<Rightarrow> pyobj \<Rightarrow> pyobj \<Rightarrow> world \<Rightarrow> ret \<times> cell list \<times> world" where
  "GMPy_mpfr_divmod_fast L x y w =
     (if IS_REAL x \<and> IS_REAL y then GMPy_Real_DivMod L x y None w
      else if IS_COMPLEX x \<and> IS_COMPLEX y then GMPy_Complex_DivMod x y None w
      else (NotImplemented, [], w))"

definition GMPy_mpc_divmod_fast ::
  "pyobj \<Rightarrow> pyobj \<Rightarrow> world \<Rightarrow> ret \<times> cell list \<times> world" where
  "GMPy_mpc_divmod_fast x y w = GMPy_Complex_DivMod x y None w"

definition GMPy_Number_DivMod ::
  "mpfr_lib \<Rightarrow> pyobj \<Rightarrow> pyobj \<Rightarrow> nat option \<Rightarrow> world \<Rightarrow> ret \<times> cell list \<times> world" where
  "GMPy_Number_DivMod L x y context w =
     (if IS_INTEGER x \<and> IS_INTEGER y then GMPy_Integer_DivMod x y context w
      else if IS_RATIONAL x \<and> IS_RATIONAL y then GMPy_Rational_DivMod x y context w
      else if IS_REAL x \<and> IS_REAL y then GMPy_Real_DivMod L x y context w
      else if IS_COMPLEX x \<and> IS_COMPLEX y then GMPy_Complex_DivMod x y context w
      else (Raised TypeError ''divmod() argument type not supported'', [], w))"

section \<open>The context-bound entry point\<close>

text \<open>\<open>Py_INCREF\<close> and \<open>Py_DECREF\<close> on a context object. An object whose count reaches
  0 is deallocated; its count stays 0.\<close>

definition Py_INCREF_ctxt :: "nat \<Rightarrow> world \<Rightarrow> world" where
  "Py_INCREF_ctxt a w =
     w\<lparr>ctxts := (ctxts w)(a := (ctxts w a)\<lparr>ob_refcnt := ob_refcnt (ctxts w a) + 1\<rparr>)\<rparr>"

definition Py_DECREF_ctxt :: "nat \<Rightarrow> world \<Rightarrow> world" where
  "Py_DECREF_ctxt a w =
     w\<lparr>ctxts := (ctxts w)(a := (ctxts w a)\<lparr>ob_refcnt := ob_refcnt (ctxts w a) - 1\<rparr>)\<rparr>"

text \<open>Modelled from the spec: \<open>GMPy_CTXT_Copy\<close> is defined outside \<open>gmpy2_divmod.c\<close>.
  It clones a context into a new, writable context object, which the caller owns.\<close>

definition GMPy_CTXT_Copy :: "nat \<Rightarrow> world \<Rightarrow> nat \<times> world" where
  "GMPy_CTXT_Copy a w =
     (brk w,
      w\<lparr>ctxts := (ctxts w)(brk w := \<lparr>ob_refcnt = 1, ctx = (ctx (ctxts w a))\<lparr>readonly := False\<rparr>\<rparr>),
        brk := brk w + 1\<rparr>)"

text \<open>
  \<open>self\<close> is \<open>Some a\<close> for the context object at address \<open>a\<close>, and \<open>None\<close> when it is
  \<open>NULL\<close> or not a context; \<open>args\<close> is the argument tuple.
\<close>

definition GMPy_Context_DivMod ::
  "mpfr_lib \<Rightarrow> nat option \<Rightarrow> pyobj list \<Rightarrow> world \<Rightarrow> ret \<times> cell list \<times> world" where
  "GMPy_Context_DivMod L self args w =
    (if length args \<noteq> 2 then (Raised TypeError ''div_mod() requires 2 arguments.'', [], w)
     else
       (case (case self of
                Some a \<Rightarrow>
                  (if readonly (ctx (ctxts w a)) then
                     (if alloc_ok w then Some (GMPy_CTXT_Copy a w) else None)
                   else Some (a, Py_INCREF_ctxt a w))
              | None \<Rightarrow>
                  (let a = CHECK_CONTEXT_SET_EXPONENT None w in Some (a, Py_INCREF_ctxt a w))) of
          None \<Rightarrow> (Raised MemoryError [], [], w)
        | Some (context, w) \<Rightarrow>
            (let (result, held, w) = GMPy_Number_DivMod L (args ! 0) (args ! 1) (Some context) w
             in (result, held, Py_DECREF_ctxt context w))))"

section \<open>Values for running the model\<close>

text \<open>The default context of gmpy2: 53 bits, round to nearest, no trap enabled.\<close>

definition context0 :: gmpy_context where
  "context0 = \<lparr>mpfr_prec = 53, mpfr_round = MPFR_RNDN, emax = 1073741823, emin = - 1073741823,
     subnormalize = False, underflow = False, overflow = False, inexact = False,
     invalid = False, erange = False, divzero = False, traps = {}, readonly = False\<rparr>"

text \<open>A world with one context object, the current context, at address 0.\<close>

definition world0 :: "gmpy_context \<Rightarrow> world" where
  "world0 g = \<lparr>ctxts = (\<lambda>a. \<lparr>ob_refcnt = (if a = 0 then 1 else 0), ctx = g\<rparr>), brk = 1,
     current = 0, gmpfr_flags = {}, alloc_ok = True\<rparr>"

text \<open>A library in which every finite value is representable: nothing is rounded and
  no flag is raised.\<close>

definition mpfr_exact :: mpfr_lib where
  "mpfr_exact = \<lparr>round_to = (\<lambda>fm rnd v. (Num v, 0, {})),
                  subnormal_round = (\<lambda>fm rnd v t. (Num v, t, {}))\<rparr>"

text \<open>A library that rounds every finite result to an integer, downwards, and raises
  the given flags when the value was not one already.\<close>

definition mpfr_coarse :: "mpfr_flag set \<Rightarrow> mpfr_lib" where
  "mpfr_coarse fl = \<lparr>round_to = (\<lambda>fm rnd v.
        if of_int \<lfloor>v\<rfloor> = v then (Num v, 0, {})
        else ((if \<lfloor>v\<rfloor> = 0 then Zero False else Num (of_int \<lfloor>v\<rfloor>)), - 1, fl)),
      subnormal_round = (\<lambda>fm rnd v t. (Num v, t, {}))\<rparr>"

section \<open>Notions used to state the properties\<close>

text \<open>The number an Integer operand stands for.\<close>

fun integer_value :: "pyobj \<Rightarrow> int" where
  "integer_value (PyLong n) = n"
| "integer_value (MPZ n) = n"
| "integer_value (XMPZ n) = n"
| "integer_value _ = 0"

text \<open>The floor of the exact quotient, as the spec writes it: \<open>floor(x / y)\<close>.\<close>

definition floor_quotient :: "int \<Rightarrow> int \<Rightarrow> int" where
  "floor_quotient a b = \<lfloor>real_of_int a / real_of_int b\<rfloor>"

text \<open>The number a Rational operand stands for.\<close>

fun rational_value :: "pyobj \<Rightarrow> rat" where
  "rational_value (PyLong n) = of_int n"
| "rational_value (MPZ n) = of_int n"
| "rational_value (XMPZ n) = of_int n"
| "rational_value (MPQ q) = q"
| "rational_value _ = 0"

text \<open>The values of the quotient and the remainder in a returned tuple of two \<open>mpfr\<close>.\<close>

fun ret_values :: "ret \<Rightarrow> (mpfr \<times> mpfr) option" where
  "ret_values (Tuple (MPFR q) (MPFR r)) = Some (f q, f r)"
| "ret_values _ = None"

text \<open>The exception a call raised, if it raised one.\<close>

fun raised_exc :: "ret \<Rightarrow> exc option" where
  "raised_exc (Raised e m) = Some e"
| "raised_exc _ = None"

text \<open>The value a Real operand has once it is converted to an \<open>mpfr\<close> under the
  context \<open>g\<close>.\<close>

definition operand_value :: "mpfr_lib \<Rightarrow> gmpy_context \<Rightarrow> pyobj \<Rightarrow> mpfr" where
  "operand_value L g x = (case GMPy_MPFR_From_Real_Temp L x g of Some (ob, _) \<Rightarrow> f ob | None \<Rightarrow> NaN)"

text \<open>The conditions under which \<open>GMPy_Real_DivMod\<close> fails before it computes a
  result: a zero divisor with the divide-by-zero trap, or an invalid operation with the
  invalid trap.\<close>

definition early_trap :: "trap set \<Rightarrow> mpfr \<Rightarrow> mpfr \<Rightarrow> bool" where
  "early_trap T X Y \<longleftrightarrow>
     (mpfr_zero_p Y \<and> TRAP_DIVZERO \<in> T) \<or>
     ((mpfr_nan_p X \<or> mpfr_nan_p Y \<or> mpfr_inf_p X \<or> mpfr_inf_p Y) \<and> TRAP_INVALID \<in> T)"

text \<open>The spec's priority of the traps checked after the computation: underflow, then
  overflow, then inexact. \<open>F\<close> is the set of raised flags, \<open>T\<close> the set of enabled
  traps.\<close>

definition trap_priority :: "mpfr_flag set \<Rightarrow> trap set \<Rightarrow> exc option" where
  "trap_priority F T =
     (if FLAG_UNDERFLOW \<in> F \<and> TRAP_UNDERFLOW \<in> T then Some GMPyExc_Underflow
      else if FLAG_OVERFLOW \<in> F \<and> TRAP_OVERFLOW \<in> T then Some GMPyExc_Overflow
      else if FLAG_INEXACT \<in> F \<and> TRAP_INEXACT \<in> T then Some GMPyExc_Inexact
      else None)"

text \<open>What the renormalization of the context makes of a result.\<close>

definition renormalized :: "mpfr_lib \<Rightarrow> gmpy_context \<Rightarrow> MPFR_Object \<Rightarrow> mpfr" where
  "renormalized L g v =
     (if subnormalize g then fst (mpfr_subnormalize L (fmt_of g) (mpfr_round g) (f v) (rc v))
      else f v)"

text \<open>\<open>x\<close> rounded per context: rounded to the precision of the context in its
  rounding mode, then renormalized when the context asks for it.\<close>

definition rounded_per_context :: "mpfr_lib \<Rightarrow> gmpy_context \<Rightarrow> mpfr \<Rightarrow> mpfr" where
  "rounded_per_context L g v =
     (let (r, t, fl) = mpfr_set L (fmt_of g) (mpfr_round g) v in
      if subnormalize g then fst (mpfr_subnormalize L (fmt_of g) (mpfr_round g) r t) else r)"

text \<open>
  The table of the spec for the special values (section 4.4, rules 2 and 3): the pair
  (quotient, remainder) for the operand values \<open>X\<close> and \<open>Y\<close>, and \<open>None\<close> when no
  rule of the table applies.
\<close>

definition special_value_table :: "(mpfr \<Rightarrow> mpfr) \<Rightarrow> mpfr \<Rightarrow> mpfr \<Rightarrow> (mpfr \<times> mpfr) option" where
  "special_value_table rounded X Y =
     (if mpfr_nan_p X \<or> mpfr_nan_p Y \<or> mpfr_inf_p X then Some (NaN, NaN)
      else if mpfr_inf_p Y then
        (if mpfr_zero_p X then Some (Zero (mpfr_signbit Y), Zero (mpfr_signbit Y))
         else if mpfr_signbit X \<noteq> mpfr_signbit Y then Some (Num (- 1), Inf (mpfr_signbit Y))
         else Some (Zero False, rounded X))
      else None)"

text \<open>
  The numeric result of Real divmod in the words of the spec (section 4.4), as a function
  of the operand values \<open>X\<close> and \<open>Y\<close> and of the context \<open>g\<close> alone: the pair
  (quotient, remainder) and the set of the floating-point flags that computing it raises,
  starting from no flag raised.

  A result is renormalized only when the context asks for subnormal renormalization.
\<close>

definition renormalize :: "mpfr_lib \<Rightarrow> gmpy_context \<Rightarrow> MPFR_Object \<Rightarrow> MPFR_Object \<times> mpfr_flag set" where
  "renormalize L g v =
     (if subnormalize g then
        (let (x, t, fl) = mpfr_subnormalize L (fmt_of g) (mpfr_round g) (f v) (rc v)
         in (\<lparr>f = x, rc = t\<rparr>, fl))
      else (v, {}))"

text \<open>
  Rule 2: a NaN operand or an infinite dividend gives (NaN, NaN). Rule 3: an infinite
  divisor gives two zeros with the sign of the divisor for a zero dividend, -1 and an
  infinity with the sign of the divisor when the signs differ, and 0 and the dividend
  rounded per context when they agree. Rule 4: the quotient is the floor of the
  division rounded toward minus infinity, the remainder is the negation of
  quotient * y - x, fused and rounded per context.
\<close>

definition numeric_raw ::
  "mpfr_lib \<Rightarrow> gmpy_context \<Rightarrow> mpfr \<Rightarrow> mpfr \<Rightarrow> MPFR_Object \<times> MPFR_Object \<times> mpfr_flag set" where
  "numeric_raw L g X Y =
     (if mpfr_nan_p X \<or> mpfr_nan_p Y \<or> mpfr_inf_p X then
        (\<lparr>f = NaN, rc = 0\<rparr>, \<lparr>f = NaN, rc = 0\<rparr>, {FLAG_NAN})
      else if mpfr_inf_p Y then
        (if mpfr_zero_p X then
           (\<lparr>f = Zero (mpfr_signbit Y), rc = 0\<rparr>, \<lparr>f = Zero (mpfr_signbit Y), rc = 0\<rparr>, {})
         else if mpfr_signbit X \<noteq> mpfr_signbit Y then
           (\<lparr>f = Num (- 1), rc = 0\<rparr>, \<lparr>f = Inf (mpfr_signbit Y), rc = 0\<rparr>, {})
         else
           (let (v, t, fl) = mpfr_set L (fmt_of g) (mpfr_round g) X
            in (\<lparr>f = Zero False, rc = 0\<rparr>, \<lparr>f = v, rc = t\<rparr>, fl)))
      else
        (let (d, _, f1) = mpfr_div L (fmt_of g) MPFR_RNDD X Y;
             (q, _, f2) = mpfr_floor d;
             (t, tc, f3) = mpfr_fms L (fmt_of g) (mpfr_round g) q Y X;
             (r, _, f4) = mpfr_neg t
         in (\<lparr>f = q, rc = 0\<rparr>, \<lparr>f = r, rc = tc\<rparr>, f1 \<union> f2 \<union> f3 \<union> f4)))"

text \<open>After either branch the remainder, then the quotient, is renormalized.\<close>

definition numeric_result ::
  "mpfr_lib \<Rightarrow> gmpy_context \<Rightarrow> mpfr \<Rightarrow> mpfr \<Rightarrow> MPFR_Object \<times> MPFR_Object \<times> mpfr_flag set" where
  "numeric_result L g X Y =
     (let (quo, rem, F) = numeric_raw L g X Y;
          (rem, fr) = renormalize L g rem;
          (quo, fq) = renormalize L g quo
      in (quo, rem, F \<union> fr \<union> fq))"

text \<open>
  What a call with the context at address \<open>c\<close> may change in the state: the flags of
  that context, which are only ever set, and the global MPFR flags. Every other
  context object, the reference count, the traps and the parameters of the context
  stay as they are.
\<close>

definition frame :: "nat \<Rightarrow> world \<Rightarrow> world \<Rightarrow> bool" where
  "frame c w w' \<longleftrightarrow>
     (\<forall>b. b \<noteq> c \<longrightarrow> ctxts w' b = ctxts w b) \<and>
     ob_refcnt (ctxts w' c) = ob_refcnt (ctxts w c) \<and>
     brk w' = brk w \<and> current w' = current w \<and> alloc_ok w' = alloc_ok w \<and>
     traps (ctx_at w' c) = traps (ctx_at w c) \<and>
     readonly (ctx_at w' c) = readonly (ctx_at w c) \<and>
     fmt_of (ctx_at w' c) = fmt_of (ctx_at w c) \<and>
     mpfr_round (ctx_at w' c) = mpfr_round (ctx_at w c) \<and>
     subnormalize (ctx_at w' c) = subnormalize (ctx_at w c) \<and>
     (underflow (ctx_at w c) \<longrightarrow> underflow (ctx_at w' c)) \<and>
     (overflow (ctx_at w c) \<longrightarrow> overflow (ctx_at w' c)) \<and>
     (inexact (ctx_at w c) \<longrightarrow> inexact (ctx_at w' c)) \<and>
     (invalid (ctx_at w c) \<longrightarrow> invalid (ctx_at w' c)) \<and>
     (erange (ctx_at w c) \<longrightarrow> erange (ctx_at w' c)) \<and>
     (divzero (ctx_at w c) \<longrightarrow> divzero (ctx_at w' c))"

text \<open>
  The layers of the spec, in the order the dispatcher tests them, and the first layer
  of that order that both operands satisfy.
\<close>

datatype layer = Integer_layer | Rational_layer | Real_layer | Complex_layer

fun belongs :: "layer \<Rightarrow> pyobj \<Rightarrow> bool" where
  "belongs Integer_layer x = IS_INTEGER x"
| "belongs Rational_layer x = IS_RATIONAL x"
| "belongs Real_layer x = IS_REAL x"
| "belongs Complex_layer x = IS_COMPLEX x"

definition first_common :: "pyobj \<Rightarrow> pyobj \<Rightarrow> layer option" where
  "first_common x y =
     find (\<lambda>l. belongs l x \<and> belongs l y) [Integer_layer, Rational_layer, Real_layer, Complex_layer]"

section \<open>Owned references\<close>

lemmas held_simps = Py_DECREF_def PyTuple_SET_ITEM_def return_result_def decref_containers_def
  decref_temps_def return_tuple_def error_exit_def hold_temps_def

section \<open>Integer divmod: floor division\<close>

subsection \<open>Machine words\<close>

lemma sint_si: "- (2 ^ 63) \<le> n \<Longrightarrow> n < 2 ^ 63 \<Longrightarrow> sint (word_of_int n :: 64 word) = n"
  by (simp add: int_word_sint)

lemma uint_si: "0 \<le> n \<Longrightarrow> n < 2 ^ 64 \<Longrightarrow> uint (word_of_int n :: 64 word) = n"
  by (simp add: uint_word_of_int)

lemma pos_si:
  "0 < n \<Longrightarrow> n < 2 ^ 63 \<Longrightarrow>
     (0 <s (word_of_int n :: 64 word)) \<and> uint (word_of_int n :: 64 word) = n"
  by (simp add: word_sless_alt sint_si uint_si)

text \<open>A negative \<open>temp_si\<close>, \<open>LONG_MIN\<close> included: negating the word and reading it as
  \<open>unsigned long\<close> gives the magnitude.\<close>

lemma neg_si:
  assumes "- (2 ^ 63) \<le> n" "n < 0"
  shows "\<not> (0 <s (word_of_int n :: 64 word)) \<and> (word_of_int n :: 64 word) \<noteq> 0
    \<and> uint (- (word_of_int n :: 64 word)) = - n"
proof -
  have s: "sint (word_of_int n :: 64 word) = n" using assms by (simp add: sint_si)
  have a: "\<not> (0 <s (word_of_int n :: 64 word))" using assms s by (simp add: word_sless_alt)
  have b: "(word_of_int n :: 64 word) \<noteq> 0"
  proof
    assume "(word_of_int n :: 64 word) = 0"
    then have "sint (word_of_int n :: 64 word) = 0" by simp
    with s assms show False by simp
  qed
  have "- (word_of_int n :: 64 word) = word_of_int (- n)" by simp
  then have c: "uint (- (word_of_int n :: 64 word)) = - n"
    using assms uint_si [of "- n"] by simp
  from a b c show ?thesis by simp
qed

subsection \<open>Ceiling division by the magnitude, negated\<close>

lemma cdiv_neg:
  assumes "uint d = - y" "y < 0"
  shows "(let (q, r) = mpz_cdiv_qr_ui x d in (mpz_neg q, r)) = mpz_fdiv_qr x y"
proof -
  have q: "(- x) div (- y) = x div y" by simp
  have "x - - (x div y) * - y = x mod y"
    using minus_div_mult_eq_mod [of x y] by simp
  then show ?thesis
    using assms by (simp add: mpz_cdiv_qr_ui_def mpz_fdiv_qr_def mpz_neg_def Let_def q)
qed

lemma ceil_int: "\<lceil>real_of_int x / real_of_int y\<rceil> = - ((- x) div y)"
proof -
  have "- (real_of_int x / real_of_int y) = real_of_int (- x) / real_of_int y" by simp
  then have "\<lfloor>- (real_of_int x / real_of_int y)\<rfloor> = (- x) div y"
    by (simp only: floor_divide_of_int_eq)
  then show ?thesis by (simp add: ceiling_def)
qed

subsection \<open>Every path of GMPy_Integer_DivMod\<close>

lemma fast_path:
  assumes "alloc_ok w" "CHECK_MPZANY x"
  shows "GMPy_Integer_DivMod x (PyLong n) c w =
    (if n = 0 then (Raised ZeroDivisionError ''division or modulo by zero'', [], w)
     else (Tuple (MPZ (MPZ_z x div n)) (MPZ (MPZ_z x mod n)), [], w))"
proof -
  consider (big) "\<not> (- (2 ^ 63) \<le> n \<and> n < 2 ^ 63)" | (pos) "0 < n" "n < 2 ^ 63"
    | (zero) "n = 0" | (neg) "- (2 ^ 63) \<le> n" "n < 0"
    by linarith
  then show ?thesis
  proof cases
    case big
    then have "n \<noteq> 0" by auto
    with big assms show ?thesis
      by (auto simp add: GMPy_Integer_DivMod_def PyLong_AsSIAndOverflow_def
          mpz_set_PyIntOrLong_def mpz_fdiv_qr_def held_simps Let_def)
  next
    case pos
    with assms pos_si [of n] show ?thesis
      by (simp add: GMPy_Integer_DivMod_def PyLong_AsSIAndOverflow_def mpz_fdiv_qr_ui_def
          held_simps Let_def)
  next
    case zero
    with assms show ?thesis
      by (simp add: GMPy_Integer_DivMod_def PyLong_AsSIAndOverflow_def held_simps Let_def)
  next
    case neg
    have c: "(let (q, r) = mpz_cdiv_qr_ui (MPZ_z x) (- (word_of_int n)) in (mpz_neg q, r))
        = mpz_fdiv_qr (MPZ_z x) n"
      using neg neg_si [of n] by (intro cdiv_neg) simp_all
    from neg have r: "- (2 ^ 63) \<le> n \<and> n < 2 ^ 63" by simp
    show ?thesis
      using assms neg neg_si [of n] c r
      by (simp add: GMPy_Integer_DivMod_def PyLong_AsSIAndOverflow_def held_simps
          mpz_fdiv_qr_def Let_def split: prod.splits)
  qed
qed

lemma Integer_DivMod_eq:
  assumes "alloc_ok w" "IS_INTEGER x" "IS_INTEGER y"
  shows "GMPy_Integer_DivMod x y c w =
    (if integer_value y = 0 then (Raised ZeroDivisionError ''division or modulo by zero'', [], w)
     else (Tuple (MPZ (integer_value x div integer_value y))
                 (MPZ (integer_value x mod integer_value y)), [], w))"
proof (cases "CHECK_MPZANY x \<and> PyIntOrLong_Check y")
  case True
  then obtain n where "y = PyLong n" by (cases y) auto
  moreover from True have "MPZ_z x = integer_value x" by (cases x) auto
  ultimately show ?thesis using fast_path [of w x n c] assms True by simp
next
  case False
  with assms show ?thesis
    by (cases x; cases y)
       (simp_all add: GMPy_Integer_DivMod_def IS_INTEGER_def mpz_sgn_def mpz_fdiv_qr_def
          mpz_set_PyIntOrLong_def held_simps Let_def sgn_if)
qed

text \<open>
  C1. Integer divmod of x by y raises the divide-by-zero error when y is 0. Otherwise it
  returns the pair (q, r) with q the floor of x / y and r = x - q * y; r has the sign of
  y or is zero, and its magnitude is below that of y. In particular
  divmod(-7, 2) = (-4, 1), divmod(7, -2) = (-4, -1) and divmod(-7, -2) = (3, -1).
  The call owns no reference when it returns and leaves the state as it was.
\<close>

theorem Integer_DivMod_floor_division:
  assumes "alloc_ok w" and "IS_INTEGER x" and "IS_INTEGER y"
  shows "(let a = integer_value x; b = integer_value y; q = floor_quotient a b; r = a - q * b in
      GMPy_Integer_DivMod x y context w =
        (if b = 0 then (Raised ZeroDivisionError ''division or modulo by zero'', [], w)
         else (Tuple (MPZ q) (MPZ r), [], w))
      \<and> (if b = 0 then True else (sgn r = sgn b \<or> r = 0) \<and> \<bar>r\<bar> < \<bar>b\<bar>))
    \<and> GMPy_Integer_DivMod (MPZ (- 7)) (MPZ 2) context w = (Tuple (MPZ (- 4)) (MPZ 1), [], w)
    \<and> GMPy_Integer_DivMod (MPZ 7) (PyLong (- 2)) context w
        = (Tuple (MPZ (- 4)) (MPZ (- 1)), [], w)
    \<and> GMPy_Integer_DivMod (PyLong (- 7)) (PyLong (- 2)) context w
        = (Tuple (MPZ 3) (MPZ (- 1)), [], w)"
proof -
  define a b where "a = integer_value x" and "b = integer_value y"
  have q: "floor_quotient a b = a div b"
    by (simp add: floor_quotient_def floor_divide_of_int_eq)
  have r: "a - a div b * b = a mod b"
    by (rule minus_div_mult_eq_mod)
  have s: "b \<noteq> 0 \<Longrightarrow> (sgn (a mod b) = sgn b \<or> a mod b = 0) \<and> \<bar>a mod b\<bar> < \<bar>b\<bar>"
    by (cases "0 < b") (auto simp: sgn_if abs_mod_less dest: pos_mod_sign neg_mod_sign
        simp: not_less le_less)
  have g: "GMPy_Integer_DivMod x y context w =
      (if b = 0 then (Raised ZeroDivisionError ''division or modulo by zero'', [], w)
       else (Tuple (MPZ (a div b)) (MPZ (a mod b)), [], w))"
    using assms unfolding a_def b_def by (rule Integer_DivMod_eq)
  have e1: "GMPy_Integer_DivMod (MPZ (- 7)) (MPZ 2) context w = (Tuple (MPZ (- 4)) (MPZ 1), [], w)"
    using Integer_DivMod_eq [of w "MPZ (- 7)" "MPZ 2" "context"] assms(1)
    by (simp add: IS_INTEGER_def)
  have e2: "GMPy_Integer_DivMod (MPZ 7) (PyLong (- 2)) context w
      = (Tuple (MPZ (- 4)) (MPZ (- 1)), [], w)"
    using Integer_DivMod_eq [of w "MPZ 7" "PyLong (- 2)" "context"] assms(1)
    by (simp add: IS_INTEGER_def)
  have e3: "GMPy_Integer_DivMod (PyLong (- 7)) (PyLong (- 2)) context w
      = (Tuple (MPZ 3) (MPZ (- 1)), [], w)"
    using Integer_DivMod_eq [of w "PyLong (- 7)" "PyLong (- 2)" "context"] assms(1)
    by (simp add: IS_INTEGER_def)
  show ?thesis
    using g s e1 e2 e3 by (simp add: Let_def q r flip: a_def b_def)
qed

theorem Integer_DivMod_floor_division_witness:
  "alloc_ok (world0 context0) \<and> IS_INTEGER (XMPZ (- 7)) \<and> IS_INTEGER (PyLong 2)
   \<and> GMPy_Integer_DivMod (XMPZ (- 7)) (PyLong 2) None (world0 context0)
       = (Tuple (MPZ (- 4)) (MPZ 1), [], world0 context0)
   \<and> GMPy_Integer_DivMod (PyLong 5) (MPZ 0) None (world0 context0)
       = (Raised ZeroDivisionError ''division or modulo by zero'', [], world0 context0)"
proof -
  have a: "alloc_ok (world0 context0)" by (simp add: world0_def)
  have i: "IS_INTEGER (XMPZ (- 7))" "IS_INTEGER (PyLong 2)" "IS_INTEGER (PyLong 5)"
    "IS_INTEGER (MPZ 0)"
    by (simp_all add: IS_INTEGER_def)
  show ?thesis
    using a i Integer_DivMod_floor_division [OF a i(1) i(2), of None]
      Integer_DivMod_floor_division [OF a i(3) i(4), of None]
    by (simp add: Let_def floor_quotient_def)
qed

text \<open>
  C5. In the fast path, for every x and every negative divisor y that fits a signed
  machine word, the conversion does not overflow, the word is negative, and its negation
  read as an unsigned word is the magnitude of y. The ceiling division of x by that
  magnitude, with the quotient negated, is the pair of the general floor division of x
  by y: the quotient is the floor of x / y and the remainder x - q * y lies in (y, 0].
  The fast path and the general path return the same tuple.
\<close>

theorem fast_path_negative_divisor:
  assumes "alloc_ok w" and "- (2 ^ 63) \<le> y" and "y < 0"
  shows "(let q = \<lceil>real_of_int x / real_of_int \<bar>y\<bar>\<rceil>; r = x - q * \<bar>y\<bar>;
              (temp_si, overflow) = PyLong_AsSIAndOverflow (PyLong y) in
            \<not> overflow \<and> \<not> 0 <s temp_si \<and> temp_si \<noteq> 0 \<and> uint (- temp_si) = \<bar>y\<bar>
          \<and> mpz_cdiv_qr_ui x (- temp_si) = (q, r)
          \<and> (mpz_neg q, r) = mpz_fdiv_qr x y
          \<and> - q = floor_quotient x y \<and> r = x - floor_quotient x y * y
          \<and> y < r \<and> r \<le> 0
          \<and> GMPy_Integer_DivMod (MPZ x) (PyLong y) context w = (Tuple (MPZ (- q)) (MPZ r), [], w))
      \<and> GMPy_Integer_DivMod (MPZ x) (PyLong y) context w
          = GMPy_Integer_DivMod (MPZ x) (MPZ y) context w"
proof -
  define q where "q = \<lceil>real_of_int x / real_of_int \<bar>y\<bar>\<rceil>"
  define r where "r = x - q * \<bar>y\<bar>"
  define t :: "64 word" where "t = word_of_int y"
  have ay: "\<bar>y\<bar> = - y" using assms(3) by simp
  have p: "PyLong_AsSIAndOverflow (PyLong y) = (t, False)"
    using assms(2,3) by (simp add: PyLong_AsSIAndOverflow_def t_def)
  have n: "\<not> 0 <s t" "t \<noteq> 0" "uint (- t) = \<bar>y\<bar>"
    using neg_si [OF assms(2,3)] ay by (simp_all add: t_def)
  have qd: "q = - ((- x) div (- y))"
    unfolding q_def ay using ceil_int [of x "- y"] by simp
  then have qf: "- q = x div y" by simp
  have rm: "r = x mod y"
  proof -
    have "q = - (x div y)" using qf by simp
    then have "r = x - (x div y) * y" unfolding r_def ay by simp
    then show ?thesis using minus_div_mult_eq_mod [of x y] by simp
  qed
  have c: "mpz_cdiv_qr_ui x (- t) = (q, r)"
    using n(3) by (simp add: mpz_cdiv_qr_ui_def Let_def qd r_def ay)
  have fd: "(mpz_neg q, r) = mpz_fdiv_qr x y"
    by (simp add: mpz_neg_def mpz_fdiv_qr_def qf rm)
  have fq: "floor_quotient x y = x div y"
    by (simp add: floor_quotient_def floor_divide_of_int_eq)
  have r2: "r = x - floor_quotient x y * y"
    unfolding fq rm using minus_div_mult_eq_mod [of x y] by simp
  have sg: "y < r" "r \<le> 0"
    using assms(3) by (simp_all add: rm neg_mod_bound neg_mod_sign)
  have ynz: "y \<noteq> 0" using assms(3) by simp
  have g1: "GMPy_Integer_DivMod (MPZ x) (PyLong y) context w = (Tuple (MPZ (- q)) (MPZ r), [], w)"
    using Integer_DivMod_eq [of w "MPZ x" "PyLong y" "context"] assms(1) ynz
    by (simp add: IS_INTEGER_def qf rm)
  have g2: "GMPy_Integer_DivMod (MPZ x) (MPZ y) context w = (Tuple (MPZ (- q)) (MPZ r), [], w)"
    using Integer_DivMod_eq [of w "MPZ x" "MPZ y" "context"] assms(1) ynz
    by (simp add: IS_INTEGER_def qf rm)
  have h: "- q = floor_quotient x y" using qf fq by simp
  have "\<not> False \<and> \<not> 0 <s t \<and> t \<noteq> 0 \<and> uint (- t) = \<bar>y\<bar>
          \<and> mpz_cdiv_qr_ui x (- t) = (q, r)
          \<and> (mpz_neg q, r) = mpz_fdiv_qr x y
          \<and> - q = floor_quotient x y \<and> r = x - floor_quotient x y * y
          \<and> y < r \<and> r \<le> 0
          \<and> GMPy_Integer_DivMod (MPZ x) (PyLong y) context w = (Tuple (MPZ (- q)) (MPZ r), [], w)"
    using n c fd h r2 sg g1 by blast
  moreover have "GMPy_Integer_DivMod (MPZ x) (PyLong y) context w
          = GMPy_Integer_DivMod (MPZ x) (MPZ y) context w"
    using g1 g2 by simp
  ultimately show ?thesis
    unfolding Let_def q_def [symmetric] r_def [symmetric] p prod.case by blast
qed

theorem fast_path_negative_divisor_witness:
  "alloc_ok (world0 context0) \<and> - (2 ^ 63) \<le> (- 2 :: int) \<and> (- 2 :: int) < 0
   \<and> mpz_cdiv_qr_ui 7 (- (word_of_int (- 2))) = (4, - 1)
   \<and> GMPy_Integer_DivMod (MPZ 7) (PyLong (- 2)) None (world0 context0)
       = (Tuple (MPZ (- 4)) (MPZ (- 1)), [], world0 context0)"
proof -
  have a: "alloc_ok (world0 context0)" by (simp add: world0_def)
  have b: "- (2 ^ 63) \<le> (- 2 :: int)" "(- 2 :: int) < 0" by simp_all
  have c: "\<lceil>real_of_int 7 / real_of_int \<bar>- 2\<bar>\<rceil> = 4" by (simp add: ceiling_divide_eq_div_numeral)
  show ?thesis
    using a b fast_path_negative_divisor [OF a b, of 7 None] c
    by (simp add: Let_def PyLong_AsSIAndOverflow_def)
qed

section \<open>Rational divmod: exact floor division\<close>

lemma floor_numref_denref: "mpz_fdiv_q (mpq_numref q) (mpq_denref q) = \<lfloor>q\<rfloor>"
proof -
  obtain n d where nd: "quotient_of q = (n, d)" by (cases "quotient_of q")
  then have "q = of_int n / of_int d" by (rule quotient_of_div)
  then have "\<lfloor>q\<rfloor> = n div d" by (simp add: floor_divide_of_int_eq)
  with nd show ?thesis by (simp add: mpz_fdiv_q_def mpq_numref_def mpq_denref_def)
qed

lemma conv_rational: "IS_RATIONAL x \<Longrightarrow> GMPy_MPQ_From_Number_Temp x = Some (rational_value x)"
  by (cases x) (simp_all add: IS_RATIONAL_def IS_INTEGER_def)

lemma Rational_DivMod_eq:
  assumes "alloc_ok w" "IS_RATIONAL x" "IS_RATIONAL y"
  shows "GMPy_Rational_DivMod x y c w =
    (if rational_value y = 0 then (Raised ZeroDivisionError ''division or modulo by zero'', [], w)
     else (Tuple (MPZ \<lfloor>rational_value x / rational_value y\<rfloor>)
                 (MPQ (rational_value x - of_int \<lfloor>rational_value x / rational_value y\<rfloor> * rational_value y)), [], w))"
  using assms
  by (simp add: GMPy_Rational_DivMod_def conv_rational Let_def held_simps mpq_sgn_def
      floor_numref_denref mpq_div_def mpq_set_z_def mpq_mul_def mpq_sub_def)

text \<open>
  C4. Rational divmod of x by y raises the divide-by-zero error when y is 0. Otherwise it
  returns an Integer quotient q, the floor of the exact quotient x / y, and the exact
  Rational remainder r = x - q * y, so that x = q * y + r. In particular
  divmod(7/2, 1/3) = (10, 1/6).
\<close>

theorem Rational_DivMod_exact:
  assumes "alloc_ok w" and "IS_RATIONAL x" and "IS_RATIONAL y"
  shows "(let a = rational_value x; b = rational_value y; q = \<lfloor>a / b\<rfloor>; r = a - of_int q * b in
      GMPy_Rational_DivMod x y context w =
        (if b = 0 then (Raised ZeroDivisionError ''division or modulo by zero'', [], w)
         else (Tuple (MPZ q) (MPQ r), [], w))
      \<and> a = of_int q * b + r)
    \<and> GMPy_Rational_DivMod (MPQ (7 / 2)) (MPQ (1 / 3)) context w
        = (Tuple (MPZ 10) (MPQ (1 / 6)), [], w)"
proof -
  have fl: "\<lfloor>21 / 2 :: rat\<rfloor> = 10" by code_simp
  have e: "GMPy_Rational_DivMod (MPQ (7 / 2)) (MPQ (1 / 3)) context w
        = (Tuple (MPZ 10) (MPQ (1 / 6)), [], w)"
    using Rational_DivMod_eq [of w "MPQ (7 / 2)" "MPQ (1 / 3)" "context"] assms(1)
    by (simp add: IS_RATIONAL_def fl)
  show ?thesis
    using Rational_DivMod_eq [OF assms, of "context"] e by (simp add: Let_def)
qed

theorem Rational_DivMod_exact_witness:
  "alloc_ok (world0 context0) \<and> IS_RATIONAL (MPQ (- 7 / 2)) \<and> IS_RATIONAL (PyLong 2)
   \<and> GMPy_Rational_DivMod (MPQ (- 7 / 2)) (PyLong 2) None (world0 context0)
       = (Tuple (MPZ (- 2)) (MPQ (1 / 2)), [], world0 context0)
   \<and> GMPy_Rational_DivMod (MPQ (7 / 2)) (MPZ 0) None (world0 context0)
       = (Raised ZeroDivisionError ''division or modulo by zero'', [], world0 context0)"
proof -
  have a: "alloc_ok (world0 context0)" by (simp add: world0_def)
  have i: "IS_RATIONAL (MPQ (- 7 / 2))" "IS_RATIONAL (PyLong 2)" "IS_RATIONAL (MPQ (7 / 2))"
    "IS_RATIONAL (MPZ 0)"
    by (simp_all add: IS_RATIONAL_def IS_INTEGER_def)
  have fl: "\<lfloor>- (7 / 4) :: rat\<rfloor> = - 2" by code_simp
  show ?thesis
    using a i Rational_DivMod_exact [OF a i(1) i(2), of None]
      Rational_DivMod_exact [OF a i(3) i(4), of None]
    by (simp add: Let_def fl)
qed

section \<open>Real divmod\<close>

subsection \<open>State: what each step changes\<close>

lemma ctx_at_simps:
  "ctx_at (ctx_upd c g w) c = g (ctx_at w c)"
  "ctx_at (raise_flags fl w) a = ctx_at w a"
  "ctx_at (mpfr_clear_flags w) a = ctx_at w a"
  by (simp_all add: ctx_at_def ctx_upd_def raise_flags_def mpfr_clear_flags_def)

lemma flags_simps:
  "gmpfr_flags (ctx_upd c g w) = gmpfr_flags w"
  "gmpfr_flags (raise_flags fl w) = gmpfr_flags w \<union> fl"
  "gmpfr_flags (mpfr_clear_flags w) = {}"
  by (simp_all add: ctx_upd_def raise_flags_def mpfr_clear_flags_def)

lemma merge_flags_simps:
  "gmpfr_flags (MERGE_FLAGS c w) = gmpfr_flags w"
  "underflow (ctx_at (MERGE_FLAGS c w) c) = (underflow (ctx_at w c) \<or> FLAG_UNDERFLOW \<in> gmpfr_flags w)"
  "overflow (ctx_at (MERGE_FLAGS c w) c) = (overflow (ctx_at w c) \<or> FLAG_OVERFLOW \<in> gmpfr_flags w)"
  "inexact (ctx_at (MERGE_FLAGS c w) c) = (inexact (ctx_at w c) \<or> FLAG_INEXACT \<in> gmpfr_flags w)"
  "traps (ctx_at (MERGE_FLAGS c w) c) = traps (ctx_at w c)"
  by (simp_all add: MERGE_FLAGS_def ctx_upd_def ctx_at_def mpfr_underflow_p_def
      mpfr_overflow_p_def mpfr_inexflag_p_def)

lemma frame_refl: "frame c w w"
  by (simp add: frame_def)

lemma frame_steps:
  "frame c w w1 \<Longrightarrow> frame c w (raise_flags fl w1)"
  "frame c w w1 \<Longrightarrow> frame c w (mpfr_clear_flags w1)"
  "frame c w w1 \<Longrightarrow> frame c w (ctx_upd c (\<lambda>g. g\<lparr>divzero := True\<rparr>) w1)"
  "frame c w w1 \<Longrightarrow> frame c w (ctx_upd c (\<lambda>g. g\<lparr>invalid := True\<rparr>) w1)"
  "frame c w w1 \<Longrightarrow> frame c w (MERGE_FLAGS c w1)"
  by (simp_all add: frame_def raise_flags_def mpfr_clear_flags_def ctx_upd_def MERGE_FLAGS_def
      ctx_at_def fmt_of_def)

lemma frame_subnormalize: "frame c w w1 \<Longrightarrow> SUBNORMALIZE L c v w1 = (v', w') \<Longrightarrow> frame c w w'"
  by (auto simp add: SUBNORMALIZE_def Let_def frame_steps split: if_splits prod.splits)

lemma frame_compute: "frame c w w1 \<Longrightarrow> Real_DivMod_compute L X Y c w1 = (r, w') \<Longrightarrow> frame c w w'"
  unfolding Real_DivMod_compute_def Let_def
  by (auto simp add: frame_steps split: if_splits prod.splits)

lemma finish_world:
  "Real_DivMod_finish L q r c held w1 = (res, held', w') \<Longrightarrow>
     w' = MERGE_FLAGS c (snd (SUBNORMALIZE L c q (snd (SUBNORMALIZE L c r w1))))"
  unfolding Real_DivMod_finish_def Let_def
  by (auto split: if_splits prod.splits)

lemma frame_finish:
  assumes "frame c w w1" and "Real_DivMod_finish L q r c held w1 = (res, held', w')"
  shows "frame c w w'"
proof -
  obtain r1 w2 where s1: "SUBNORMALIZE L c r w1 = (r1, w2)" by (cases "SUBNORMALIZE L c r w1")
  obtain q1 w3 where s2: "SUBNORMALIZE L c q w2 = (q1, w3)" by (cases "SUBNORMALIZE L c q w2")
  have "frame c w w2" using assms(1) s1 by (rule frame_subnormalize)
  then have "frame c w w3" using s2 by (rule frame_subnormalize)
  then have "frame c w (MERGE_FLAGS c w3)" by (rule frame_steps)
  moreover have "w' = MERGE_FLAGS c w3"
    using finish_world [OF assms(2)] s1 s2 by simp
  ultimately show ?thesis by simp
qed

lemma frame_Real:
  assumes "GMPy_Real_DivMod L x y context w = (res, held, w')"
  shows "frame (CHECK_CONTEXT_SET_EXPONENT context w) w w'"
proof -
  define c where "c = CHECK_CONTEXT_SET_EXPONENT context w"
  have 0: "frame c w w" by (rule frame_refl)
  show ?thesis
    using assms 0 unfolding GMPy_Real_DivMod_def Let_def c_def [symmetric]
    by (auto split: if_splits prod.splits option.splits sum.splits
        intro: frame_compute frame_finish frame_steps
        elim!: frame_finish [rotated] dest!: frame_compute [rotated])
qed

lemma subnormalize_ctxts: "SUBNORMALIZE L c v w = (v', w') \<Longrightarrow> ctxts w' = ctxts w"
  by (auto simp add: SUBNORMALIZE_def Let_def raise_flags_def split: if_splits prod.splits)

subsection \<open>The stages of GMPy_Real_DivMod\<close>

lemma conv_IS_REAL: "GMPy_MPFR_From_Real_Temp L x g = Some p \<Longrightarrow> IS_REAL x"
  by (cases x) (simp_all add: IS_REAL_def IS_RATIONAL_def IS_INTEGER_def)

lemma conv_Some: "IS_REAL x \<Longrightarrow> \<exists>ob fl. GMPy_MPFR_From_Real_Temp L x g = Some (ob, fl)"
  by (cases x) (auto simp add: IS_REAL_def IS_RATIONAL_def IS_INTEGER_def
      intro: prod.exhaust)

lemma Real_DivMod_unfold:
  assumes "alloc_ok w" and "c = CHECK_CONTEXT_SET_EXPONENT context w"
    and "GMPy_MPFR_From_Real_Temp L x (ctx_at w c) = Some (X, fx)"
    and "GMPy_MPFR_From_Real_Temp L y (ctx_at w c) = Some (Y, fy)"
    and "w1 = (if mpfr_zero_p (f Y) then ctx_upd c (\<lambda>g. g\<lparr>divzero := True\<rparr>) (raise_flags (fx \<union> fy) w)
               else raise_flags (fx \<union> fy) w)"
  shows "GMPy_Real_DivMod L x y context w =
     (if mpfr_zero_p (f Y) \<and> TRAP_DIVZERO \<in> traps (ctx_at w c) then
        (Raised GMPyExc_DivZero (msg_mpfr '' division by zero in divmod''), [], w1)
      else (case Real_DivMod_compute L X Y c w1 of
              (Inl (e, m), w2) \<Rightarrow> (Raised e m, [], w2)
            | (Inr (quo, rem), w2) \<Rightarrow>
                Real_DivMod_finish L quo rem c [Result, Rem, Quo, TempX, TempY] w2))"
proof -
  have rx: "IS_REAL x" and ry: "IS_REAL y"
    using assms(3,4) by (auto dest: conv_IS_REAL)
  show ?thesis
    using assms(1,3,4) rx ry
    by (simp add: GMPy_Real_DivMod_def Let_def trap_enabled_def held_simps assms(5) ctx_at_simps
        flip: assms(2) split: prod.splits sum.splits)
qed

lemma compute_result:
  assumes "Real_DivMod_compute L X Y c w1 = (r, w2)"
  shows "(case r of
            Inl (e, m) \<Rightarrow> (mpfr_nan_p (f X) \<or> mpfr_nan_p (f Y) \<or> mpfr_inf_p (f X) \<or> mpfr_inf_p (f Y))
                \<and> TRAP_INVALID \<in> traps (ctx_at w1 c) \<and> e = GMPyExc_Invalid
          | Inr p \<Rightarrow> \<not> ((mpfr_nan_p (f X) \<or> mpfr_nan_p (f Y) \<or> mpfr_inf_p (f X) \<or> mpfr_inf_p (f Y))
                \<and> TRAP_INVALID \<in> traps (ctx_at w1 c)))
     \<and> (mpfr_nan_p (f X) \<or> mpfr_nan_p (f Y) \<or> mpfr_inf_p (f X) \<or> mpfr_inf_p (f Y) \<longrightarrow> invalid (ctx_at w2 c))"
  using assms unfolding Real_DivMod_compute_def Let_def
  by (auto simp add: ctx_at_simps trap_enabled_def split: if_splits prod.splits)

lemma compute_keeps:
  assumes "Real_DivMod_compute L X Y c w1 = (r, w2)"
  shows "underflow (ctx_at w2 c) = underflow (ctx_at w1 c)
    \<and> overflow (ctx_at w2 c) = overflow (ctx_at w1 c)
    \<and> inexact (ctx_at w2 c) = inexact (ctx_at w1 c)
    \<and> traps (ctx_at w2 c) = traps (ctx_at w1 c)
    \<and> (divzero (ctx_at w1 c) \<longrightarrow> divzero (ctx_at w2 c))"
  using assms unfolding Real_DivMod_compute_def Let_def
  by (auto simp add: ctx_at_simps split: if_splits prod.splits)

lemma finish_result:
  assumes "Real_DivMod_finish L q r c held w1 = (res, held', w')"
  shows "underflow (ctx_at w' c) = (underflow (ctx_at w1 c) \<or> FLAG_UNDERFLOW \<in> gmpfr_flags w')
    \<and> overflow (ctx_at w' c) = (overflow (ctx_at w1 c) \<or> FLAG_OVERFLOW \<in> gmpfr_flags w')
    \<and> inexact (ctx_at w' c) = (inexact (ctx_at w1 c) \<or> FLAG_INEXACT \<in> gmpfr_flags w')
    \<and> raised_exc res = trap_priority (gmpfr_flags w') (traps (ctx_at w1 c))
    \<and> (if raised_exc res = None
        then (\<exists>q' r'. res = Tuple (MPFR q') (MPFR r')) \<and> held' = return_tuple (decref_temps held)
        else held' = error_exit held)"
proof -
  obtain r1 w2 where s1: "SUBNORMALIZE L c r w1 = (r1, w2)" by (cases "SUBNORMALIZE L c r w1")
  obtain q1 w3 where s2: "SUBNORMALIZE L c q w2 = (q1, w3)" by (cases "SUBNORMALIZE L c q w2")
  have c3: "ctx_at w3 c = ctx_at w1 c"
    using subnormalize_ctxts [OF s1] subnormalize_ctxts [OF s2] by (simp add: ctx_at_def)
  have w': "w' = MERGE_FLAGS c w3"
    using finish_world [OF assms] s1 s2 by simp
  show ?thesis
    using assms unfolding Real_DivMod_finish_def Let_def s1 s2 prod.case w'
    by (auto simp add: merge_flags_simps c3 trap_priority_def trap_enabled_def
        mpfr_underflow_p_def mpfr_overflow_p_def mpfr_inexflag_p_def split: if_splits)
qed

lemma finish_divzero:
  assumes "Real_DivMod_finish L q r c held w1 = (res, held', w')" "divzero (ctx_at w1 c)"
  shows "divzero (ctx_at w' c)"
  using frame_finish [OF frame_refl assms(1)] assms(2) by (simp add: frame_def)

lemma SUBNORMALIZE_value:
  "f (fst (SUBNORMALIZE L c v w)) = renormalized L (ctx_at w c) v"
  by (simp add: SUBNORMALIZE_def renormalized_def Let_def split: prod.splits)

lemma renormalized_singular:
  "\<forall>v. x \<noteq> Num v \<Longrightarrow> renormalized L g \<lparr>f = x, rc = t\<rparr> = x"
  by (cases x) (simp_all add: renormalized_def)

lemma renormalized_cong:
  "fmt_of g = fmt_of g' \<Longrightarrow> mpfr_round g = mpfr_round g' \<Longrightarrow> subnormalize g = subnormalize g'
     \<Longrightarrow> renormalized L g v = renormalized L g' v"
  by (simp add: renormalized_def)

lemma finish_untrapped:
  assumes "traps (ctx_at w2 c) = {}"
    and "Real_DivMod_finish L q r c held w2 = (res, held', w')"
  shows "ret_values res = Some (renormalized L (ctx_at w2 c) q, renormalized L (ctx_at w2 c) r)"
proof -
  obtain r1 w3 where s1: "SUBNORMALIZE L c r w2 = (r1, w3)" by (cases "SUBNORMALIZE L c r w2")
  obtain q1 w4 where s2: "SUBNORMALIZE L c q w3 = (q1, w4)" by (cases "SUBNORMALIZE L c q w3")
  have c3: "ctx_at w3 c = ctx_at w2 c"
    using subnormalize_ctxts [OF s1] by (simp add: ctx_at_def)
  have c4: "ctx_at w4 c = ctx_at w2 c"
    using subnormalize_ctxts [OF s2] c3 by (simp add: ctx_at_def)
  have r1: "f r1 = renormalized L (ctx_at w2 c) r"
    using SUBNORMALIZE_value [of L c r w2] s1 by simp
  have q1: "f q1 = renormalized L (ctx_at w2 c) q"
    using SUBNORMALIZE_value [of L c q w3] s2 c3 by simp
  have "res = Tuple (MPFR q1) (MPFR r1)"
    using assms unfolding Real_DivMod_finish_def Let_def s1 s2 prod.case
    by (simp add: trap_enabled_def merge_flags_simps c4)
  then show ?thesis by (simp add: r1 q1)
qed

lemma finish_singular:
  assumes "\<forall>v. f q \<noteq> Num v" "\<forall>v. f r \<noteq> Num v" "rc q = 0" "rc r = 0"
    "FLAG_UNDERFLOW \<notin> gmpfr_flags w" "FLAG_OVERFLOW \<notin> gmpfr_flags w" "FLAG_INEXACT \<notin> gmpfr_flags w"
  shows "\<exists>w'. Real_DivMod_finish L q r c [Result, Rem, Quo, TempX, TempY] w = (Tuple (MPFR q) (MPFR r), [], w')"
  using assms
  by (cases "f q"; cases "f r")
     (auto simp add: Real_DivMod_finish_def SUBNORMALIZE_def MERGE_FLAGS_def Let_def held_simps
       mpfr_underflow_p_def mpfr_overflow_p_def mpfr_inexflag_p_def flags_simps split: prod.splits)

lemma compute_zero_divisor:
  assumes "f X = Num v" "f Y = Zero s"
  shows "\<exists>w'. Real_DivMod_compute L X Y c w =
     (Inr (\<lparr>f = Inf ((v < 0) \<noteq> s), rc = 0\<rparr>, \<lparr>f = NaN, rc = 0\<rparr>), w')
     \<and> gmpfr_flags w' = {FLAG_DIVBY0, FLAG_NAN} \<and> ctx_at w' c = ctx_at w c"
  using assms
  by (auto simp add: Real_DivMod_compute_def GMPy_MPFR_New_def Let_def ctx_at_simps flags_simps)

lemma compute_special:
  assumes "TRAP_INVALID \<notin> traps (ctx_at w1 c)"
    and "special_value_table rd (f X) (f Y) = Some (qv, rv)"
    and "Real_DivMod_compute L X Y c w1 = (r, w2)"
  shows "\<exists>quo rem. r = Inr (quo, rem) \<and> rc quo = 0 \<and> f quo = qv
     \<and> (if mpfr_nan_p (f X) \<or> mpfr_nan_p (f Y) \<or> mpfr_inf_p (f X) \<or> mpfr_zero_p (f X)
           \<or> mpfr_signbit (f X) \<noteq> mpfr_signbit (f Y)
         then rem = \<lparr>f = rv, rc = 0\<rparr>
         else (f rem, rc rem) = (let (v, t, fl) = mpfr_set L (fmt_of (ctx_at w1 c)) (mpfr_round (ctx_at w1 c)) (f X) in (v, t)))"
  using assms unfolding Real_DivMod_compute_def special_value_table_def Let_def
  by (cases "f Y")
     (auto simp add: ctx_at_simps trap_enabled_def GMPy_MPFR_New_def mpfr_set_nan_def
      mpfr_set_zero_def mpfr_set_inf_def mpfr_set_si_def GET_MPFR_ROUND_def fmt_of_def
      split: if_splits prod.splits)

lemma table_quotient:
  assumes "special_value_table rd X Y = Some (qv, rv)"
  shows "(\<forall>v. qv \<noteq> Num v) \<or> qv = Num (- 1)"
  using assms unfolding special_value_table_def by (auto split: if_splits)

lemma table_invalid:
  assumes "special_value_table rd X Y = Some (qv, rv)"
  shows "mpfr_nan_p X \<or> mpfr_nan_p Y \<or> mpfr_inf_p X \<or> mpfr_inf_p Y"
  using assms unfolding special_value_table_def by (auto split: if_splits)

lemma table_remainder:
  assumes "special_value_table rd X Y = Some (qv, rv)"
  shows "if mpfr_nan_p X \<or> mpfr_nan_p Y \<or> mpfr_inf_p X \<or> mpfr_zero_p X
           \<or> mpfr_signbit X \<noteq> mpfr_signbit Y
         then \<forall>v. rv \<noteq> Num v else rv = rd X"
  using assms unfolding special_value_table_def by (auto split: if_splits)

text \<open>The computation and the final stage against the numeric result of the spec.\<close>

lemma compute_raw:
  assumes "Real_DivMod_compute L X Y c w1 = (Inr (quo, rem), w2)"
  shows "(quo, rem, gmpfr_flags w2) = numeric_raw L (ctx_at w1 c) (f X) (f Y)"
  using assms unfolding Real_DivMod_compute_def numeric_raw_def Let_def
  by (cases "f Y")
     (auto simp add: ctx_at_simps flags_simps trap_enabled_def GMPy_MPFR_New_def mpfr_set_nan_def
      mpfr_set_zero_def mpfr_set_inf_def mpfr_set_si_def GET_MPFR_ROUND_def fmt_of_def
      split: if_splits prod.splits)

lemma SUBNORMALIZE_renormalize:
  "SUBNORMALIZE L c v w = (fst (renormalize L (ctx_at w c) v),
      raise_flags (snd (renormalize L (ctx_at w c) v)) w)"
  by (simp add: SUBNORMALIZE_def renormalize_def Let_def raise_flags_def split: prod.splits)

lemma finish_numeric:
  assumes "Real_DivMod_finish L quo rem c held w2 = (res, held', w')"
    and "g = ctx_at w2 c"
  shows "gmpfr_flags w' = gmpfr_flags w2 \<union> snd (renormalize L g rem) \<union> snd (renormalize L g quo)
     \<and> (if raised_exc res = None
         then res = Tuple (MPFR (fst (renormalize L g quo))) (MPFR (fst (renormalize L g rem)))
         else True)"
  using assms(1) unfolding Real_DivMod_finish_def Let_def SUBNORMALIZE_renormalize prod.case assms(2)
  by (auto simp add: merge_flags_simps flags_simps ctx_at_simps split: if_splits)

lemma renormalize_cong:
  "fmt_of g = fmt_of g' \<Longrightarrow> mpfr_round g = mpfr_round g' \<Longrightarrow> subnormalize g = subnormalize g'
     \<Longrightarrow> renormalize L g v = renormalize L g' v"
  by (simp add: renormalize_def)

lemma numeric_raw_cong:
  "fmt_of g = fmt_of g' \<Longrightarrow> mpfr_round g = mpfr_round g' \<Longrightarrow> numeric_raw L g X Y = numeric_raw L g' X Y"
  by (simp add: numeric_raw_def)

subsection \<open>Special values\<close>

text \<open>
  C2. Under a context with no trap enabled, Real divmod of operands whose values fall
  under the table of special values returns the pair of the table and raises the
  invalid-operation flag: (NaN, NaN) when x is NaN, y is NaN or x is infinite; for an
  infinite y and a finite x, two zeros with the sign of y when x is zero, (-1, the
  infinity with the sign of y) when x and y differ in sign, and (0, x rounded per
  context) when they agree. The library is taken to renormalize the number -1 to
  itself, as it does for every power of two.
\<close>

theorem Real_DivMod_special_values:
  assumes "alloc_ok w" and "IS_REAL x" and "IS_REAL y"
    and "c = CHECK_CONTEXT_SET_EXPONENT context w"
    and "traps (ctx_at w c) = {}"
    and "special_value_table (rounded_per_context L (ctx_at w c))
           (operand_value L (ctx_at w c) x) (operand_value L (ctx_at w c) y) = Some (qv, rv)"
    and "subnormalize (ctx_at w c) \<longrightarrow>
           fst (subnormal_round L (fmt_of (ctx_at w c)) (mpfr_round (ctx_at w c)) (- 1) 0) = Num (- 1)"
    and "GMPy_Real_DivMod L x y context w = (res, held, w')"
  shows "ret_values res = Some (qv, rv) \<and> invalid (ctx_at w' c) \<and> held = []"
proof -
  define g where "g = ctx_at w c"
  obtain X fx where cx: "GMPy_MPFR_From_Real_Temp L x (ctx_at w c) = Some (X, fx)"
    using conv_Some [OF assms(2)] by blast
  obtain Y fy where cy: "GMPy_MPFR_From_Real_Temp L y (ctx_at w c) = Some (Y, fy)"
    using conv_Some [OF assms(3)] by blast
  have tab: "special_value_table (rounded_per_context L g) (f X) (f Y) = Some (qv, rv)"
    using assms(6) by (simp add: operand_value_def cx cy g_def)
  define w1 where "w1 = (if mpfr_zero_p (f Y)
      then ctx_upd c (\<lambda>g. g\<lparr>divzero := True\<rparr>) (raise_flags (fx \<union> fy) w)
      else raise_flags (fx \<union> fy) w)"
  have f1: "frame c w w1"
    by (simp add: w1_def frame_steps frame_refl)
  have eq: "(res, held, w') =
      (case Real_DivMod_compute L X Y c w1 of
              (Inl (e, m), w2) \<Rightarrow> (Raised e m, [], w2)
            | (Inr (quo, rem), w2) \<Rightarrow>
                Real_DivMod_finish L quo rem c [Result, Rem, Quo, TempX, TempY] w2)"
    using Real_DivMod_unfold [OF assms(1,4) cx cy w1_def] assms(5,8) by simp
  obtain r w2 where cr: "Real_DivMod_compute L X Y c w1 = (r, w2)"
    by (cases "Real_DivMod_compute L X Y c w1")
  have f2: "frame c w w2" using f1 cr by (rule frame_compute)
  have t1: "traps (ctx_at w1 c) = {}" and t2: "traps (ctx_at w2 c) = {}"
    using f1 f2 assms(5) by (simp_all add: frame_def)
  have g1: "fmt_of (ctx_at w1 c) = fmt_of g" "mpfr_round (ctx_at w1 c) = mpfr_round g"
    using f1 by (simp_all add: frame_def g_def)
  have g2: "fmt_of (ctx_at w2 c) = fmt_of g" "mpfr_round (ctx_at w2 c) = mpfr_round g"
    "subnormalize (ctx_at w2 c) = subnormalize g"
    using f2 by (simp_all add: frame_def g_def)
  obtain quo rem where r: "r = Inr (quo, rem)" and qrc: "rc quo = 0" and qf: "f quo = qv"
    and rm: "if mpfr_nan_p (f X) \<or> mpfr_nan_p (f Y) \<or> mpfr_inf_p (f X) \<or> mpfr_zero_p (f X)
           \<or> mpfr_signbit (f X) \<noteq> mpfr_signbit (f Y)
         then rem = \<lparr>f = rv, rc = 0\<rparr>
         else (f rem, rc rem) = (let (v, t, fl) = mpfr_set L (fmt_of g) (mpfr_round g) (f X) in (v, t))"
    using compute_special [OF _ tab cr] t1 g1 by auto
  have fin: "Real_DivMod_finish L quo rem c [Result, Rem, Quo, TempX, TempY] w2 = (res, held, w')"
    using eq cr r by simp
  have rv0: "ret_values res = Some (renormalized L g quo, renormalized L g rem)"
    using finish_untrapped [OF t2 fin] renormalized_cong [OF g2, of L] by simp
  have quo: "quo = \<lparr>f = qv, rc = 0\<rparr>" using qrc qf by simp
  have q: "renormalized L g quo = qv"
    using table_quotient [OF tab]
  proof
    assume "\<forall>v. qv \<noteq> Num v"
    then show ?thesis unfolding quo by (rule renormalized_singular)
  next
    assume "qv = Num (- 1)"
    then show ?thesis using assms(7) by (simp add: quo renormalized_def g_def)
  qed
  have rr: "renormalized L g rem = rv"
  proof (cases "mpfr_nan_p (f X) \<or> mpfr_nan_p (f Y) \<or> mpfr_inf_p (f X) \<or> mpfr_zero_p (f X)
           \<or> mpfr_signbit (f X) \<noteq> mpfr_signbit (f Y)")
    case True
    then have "rem = \<lparr>f = rv, rc = 0\<rparr>" and "\<forall>v. rv \<noteq> Num v"
      using rm table_remainder [OF tab] by simp_all
    then show ?thesis by (simp add: renormalized_singular)
  next
    case False
    then have a: "(f rem, rc rem) = (let (v, t, fl) = mpfr_set L (fmt_of g) (mpfr_round g) (f X) in (v, t))"
      and b: "rv = rounded_per_context L g (f X)"
      using rm table_remainder [OF tab] by simp_all
    show ?thesis
      using a unfolding b rounded_per_context_def renormalized_def
      by (auto simp add: Let_def split: prod.splits)
  qed
  have inv2: "invalid (ctx_at w2 c)"
    using compute_result [OF cr] table_invalid [OF tab] by blast
  have inv: "invalid (ctx_at w' c)"
    using frame_finish [OF frame_refl fin] inv2 by (simp add: frame_def)
  have h: "held = []"
    using finish_result [OF fin] by (auto simp add: held_simps split: if_splits)
  show ?thesis using rv0 q rr inv h by simp
qed

theorem Real_DivMod_special_values_witness:
  "ret_values (fst (GMPy_Real_DivMod mpfr_exact (MPFR \<lparr>f = Num 5, rc = 0\<rparr>)
       (MPFR \<lparr>f = Inf True, rc = 0\<rparr>) None (world0 (context0\<lparr>subnormalize := True\<rparr>))))
     = Some (Num (- 1), Inf True)
   \<and> ret_values (fst (GMPy_Real_DivMod mpfr_exact (MPFR \<lparr>f = Num 5, rc = 0\<rparr>)
       (MPFR \<lparr>f = Inf False, rc = 0\<rparr>) None (world0 (context0\<lparr>subnormalize := True\<rparr>))))
     = Some (Zero False, Num 5)
   \<and> ret_values (fst (GMPy_Real_DivMod mpfr_exact (MPFR \<lparr>f = Zero False, rc = 0\<rparr>)
       (MPFR \<lparr>f = Inf True, rc = 0\<rparr>) None (world0 (context0\<lparr>subnormalize := True\<rparr>))))
     = Some (Zero True, Zero True)
   \<and> ret_values (fst (GMPy_Real_DivMod mpfr_exact (MPFR \<lparr>f = Inf False, rc = 0\<rparr>)
       (PyLong 2) None (world0 (context0\<lparr>subnormalize := True\<rparr>))))
     = Some (NaN, NaN)"
proof -
  define W where "W = world0 (context0\<lparr>subnormalize := True\<rparr>)"
  define g where "g = ctx_at W 0"
  have a: "alloc_ok W" by (simp add: W_def world0_def)
  have c: "0 = CHECK_CONTEXT_SET_EXPONENT None W"
    by (simp add: CHECK_CONTEXT_SET_EXPONENT_def W_def world0_def)
  have t: "traps (ctx_at W 0) = {}"
    by (simp add: W_def world0_def context0_def ctx_at_def)
  have s: "subnormalize (ctx_at W 0) \<longrightarrow>
      fst (subnormal_round mpfr_exact (fmt_of (ctx_at W 0)) (mpfr_round (ctx_at W 0)) (- 1) 0) = Num (- 1)"
    by (simp add: mpfr_exact_def)
  have r: "IS_REAL (MPFR ob)" "IS_REAL (PyLong n)" for ob n
    by (simp_all add: IS_REAL_def IS_RATIONAL_def IS_INTEGER_def)
  have v: "operand_value mpfr_exact g (MPFR ob) = f ob"
    "operand_value mpfr_exact g (PyLong 2) = Num 2" for ob
    by (simp_all add: operand_value_def mpfr_set_q_def mpfr_exact_def)
  have rd: "rounded_per_context mpfr_exact g (Num 5) = Num 5"
    by (simp add: rounded_per_context_def mpfr_exact_def)
  have e: "GMPy_Real_DivMod mpfr_exact x y None W =
      (fst (GMPy_Real_DivMod mpfr_exact x y None W),
       fst (snd (GMPy_Real_DivMod mpfr_exact x y None W)),
       snd (snd (GMPy_Real_DivMod mpfr_exact x y None W)))" for x y
    by simp
  have "ret_values (fst (GMPy_Real_DivMod mpfr_exact (MPFR \<lparr>f = Num 5, rc = 0\<rparr>)
       (MPFR \<lparr>f = Inf True, rc = 0\<rparr>) None W)) = Some (Num (- 1), Inf True)"
    using Real_DivMod_special_values [where qv = "Num (- 1)" and rv = "Inf True", OF a r(1) r(1) c t _ s e]
    by (simp add: special_value_table_def v flip: g_def)
  moreover have "ret_values (fst (GMPy_Real_DivMod mpfr_exact (MPFR \<lparr>f = Num 5, rc = 0\<rparr>)
       (MPFR \<lparr>f = Inf False, rc = 0\<rparr>) None W)) = Some (Zero False, Num 5)"
    using Real_DivMod_special_values [where qv = "Zero False" and rv = "Num 5", OF a r(1) r(1) c t _ s e]
    by (simp add: special_value_table_def v rd flip: g_def)
  moreover have "ret_values (fst (GMPy_Real_DivMod mpfr_exact (MPFR \<lparr>f = Zero False, rc = 0\<rparr>)
       (MPFR \<lparr>f = Inf True, rc = 0\<rparr>) None W)) = Some (Zero True, Zero True)"
    using Real_DivMod_special_values [where qv = "Zero True" and rv = "Zero True", OF a r(1) r(1) c t _ s e]
    by (simp add: special_value_table_def v flip: g_def)
  moreover have "ret_values (fst (GMPy_Real_DivMod mpfr_exact (MPFR \<lparr>f = Inf False, rc = 0\<rparr>)
       (PyLong 2) None W)) = Some (NaN, NaN)"
    using Real_DivMod_special_values [where qv = NaN and rv = NaN, OF a r(1) r(2) c t _ s e]
    by (simp add: special_value_table_def v flip: g_def)
  ultimately show ?thesis by (simp add: W_def)
qed

subsection \<open>Zero divisor\<close>

text \<open>
  C3, as the code has it at divmod(5.0, 0.0) under the default context: the call
  returns the quotient +Inf and the remainder NaN, not (NaN, NaN).
\<close>

theorem zero_divisor_quotient_counterexample:
  "ret_values (fst (GMPy_Real_DivMod mpfr_exact (MPFR \<lparr>f = Num 5, rc = 0\<rparr>)
       (MPFR \<lparr>f = Zero False, rc = 0\<rparr>) None (world0 context0))) = Some (Inf False, NaN)
   \<and> ret_values (fst (GMPy_Real_DivMod mpfr_exact (MPFR \<lparr>f = Num 5, rc = 0\<rparr>)
       (MPFR \<lparr>f = Zero False, rc = 0\<rparr>) None (world0 context0))) \<noteq> Some (NaN, NaN)"
  by code_simp

text \<open>
  C3, amended. For Real divmod with a zero divisor and a finite nonzero dividend the
  divide-by-zero flag of the context is set. With the divide-by-zero trap enabled the
  call fails at once with the divide-by-zero error. Otherwise the computation goes on
  through the general branch and the call returns an infinite quotient, negative
  exactly when the signs of the operands differ, and the remainder NaN.
\<close>

theorem Real_DivMod_zero_divisor:
  assumes "alloc_ok w"
    and "c = CHECK_CONTEXT_SET_EXPONENT context w"
    and "GMPy_MPFR_From_Real_Temp L x (ctx_at w c) = Some (X, fx)" and "f X = Num v"
    and "GMPy_MPFR_From_Real_Temp L y (ctx_at w c) = Some (Y, fy)" and "f Y = Zero s"
    and "GMPy_Real_DivMod L x y context w = (res, held, w')"
  shows "divzero (ctx_at w' c) \<and>
     (if TRAP_DIVZERO \<in> traps (ctx_at w c)
      then res = Raised GMPyExc_DivZero (msg_mpfr '' division by zero in divmod'')
      else ret_values res = Some (Inf ((v < 0) \<noteq> s), NaN))"
proof -
  have rx: "IS_REAL x" and ry: "IS_REAL y"
    using assms(3,5) by (auto dest: conv_IS_REAL)
  define w1 where "w1 = ctx_upd c (\<lambda>g. g\<lparr>divzero := True\<rparr>) (raise_flags (fx \<union> fy) w)"
  have d1: "divzero (ctx_at w1 c)" and t1: "traps (ctx_at w1 c) = traps (ctx_at w c)"
    by (simp_all add: w1_def ctx_at_simps)
  show ?thesis
  proof (cases "TRAP_DIVZERO \<in> traps (ctx_at w c)")
    case True
    have "GMPy_Real_DivMod L x y context w =
        (Raised GMPyExc_DivZero (msg_mpfr '' division by zero in divmod''), [], w1)"
      using assms(1,3,4,5,6) rx ry True t1
      by (simp add: GMPy_Real_DivMod_def Let_def trap_enabled_def held_simps
          flip: assms(2) w1_def)
    with assms(7) d1 True show ?thesis by simp
  next
    case False
    obtain w2 where c2: "Real_DivMod_compute L X Y c w1 =
        (Inr (\<lparr>f = Inf ((v < 0) \<noteq> s), rc = 0\<rparr>, \<lparr>f = NaN, rc = 0\<rparr>), w2)"
      and f2: "gmpfr_flags w2 = {FLAG_DIVBY0, FLAG_NAN}" and g2: "ctx_at w2 c = ctx_at w1 c"
      using compute_zero_divisor [OF assms(4,6), of L c w1] by blast
    obtain w3 where c3: "Real_DivMod_finish L \<lparr>f = Inf ((v < 0) \<noteq> s), rc = 0\<rparr> \<lparr>f = NaN, rc = 0\<rparr> c
         [Result, Rem, Quo, TempX, TempY] w2 =
         (Tuple (MPFR \<lparr>f = Inf ((v < 0) \<noteq> s), rc = 0\<rparr>) (MPFR \<lparr>f = NaN, rc = 0\<rparr>), [], w3)"
      using finish_singular [of "\<lparr>f = Inf ((v < 0) \<noteq> s), rc = 0\<rparr>" "\<lparr>f = NaN, rc = 0\<rparr>" w2 L c] f2
      by auto
    have fr: "frame c w2 w3" using frame_refl c3 by (rule frame_finish)
    have "GMPy_Real_DivMod L x y context w =
        (Tuple (MPFR \<lparr>f = Inf ((v < 0) \<noteq> s), rc = 0\<rparr>) (MPFR \<lparr>f = NaN, rc = 0\<rparr>), [], w3)"
      using assms(1,3,4,5,6) rx ry False t1 c2 c3
      by (simp add: GMPy_Real_DivMod_def Let_def trap_enabled_def held_simps
          flip: assms(2) w1_def)
    with assms(7) have "res = Tuple (MPFR \<lparr>f = Inf ((v < 0) \<noteq> s), rc = 0\<rparr>) (MPFR \<lparr>f = NaN, rc = 0\<rparr>)"
      and "w' = w3" by simp_all
    moreover have "divzero (ctx_at w3 c)"
      using fr d1 g2 by (simp add: frame_def)
    ultimately show ?thesis using False by simp
  qed
qed

theorem Real_DivMod_zero_divisor_witness:
  "ret_values (fst (GMPy_Real_DivMod mpfr_exact (PyLong (- 5)) (MPFR \<lparr>f = Zero False, rc = 0\<rparr>)
       None (world0 context0))) = Some (Inf True, NaN)
   \<and> divzero (ctx_at (snd (snd (GMPy_Real_DivMod mpfr_exact (PyLong (- 5))
       (MPFR \<lparr>f = Zero False, rc = 0\<rparr>) None (world0 context0)))) 0)
   \<and> fst (GMPy_Real_DivMod mpfr_exact (PyLong (- 5)) (MPFR \<lparr>f = Zero False, rc = 0\<rparr>)
       None (world0 (context0\<lparr>traps := {TRAP_DIVZERO}\<rparr>)))
      = Raised GMPyExc_DivZero (msg_mpfr '' division by zero in divmod'')"
proof -
  define X where "X = PyLong (- 5)"
  define Y where "Y = MPFR \<lparr>f = Zero False, rc = 0\<rparr>"
  define W1 where "W1 = world0 context0"
  define W2 where "W2 = world0 (context0\<lparr>traps := {TRAP_DIVZERO}\<rparr>)"
  define R1 where "R1 = GMPy_Real_DivMod mpfr_exact X Y None W1"
  define R2 where "R2 = GMPy_Real_DivMod mpfr_exact X Y None W2"
  have a: "alloc_ok W1" "alloc_ok W2" by (simp_all add: W1_def W2_def world0_def)
  have c: "0 = CHECK_CONTEXT_SET_EXPONENT None W1" "0 = CHECK_CONTEXT_SET_EXPONENT None W2"
    by (simp_all add: CHECK_CONTEXT_SET_EXPONENT_def W1_def W2_def world0_def)
  have cx: "GMPy_MPFR_From_Real_Temp mpfr_exact X (ctx_at W1 0) = Some (\<lparr>f = Num (- 5), rc = 0\<rparr>, {})"
    "GMPy_MPFR_From_Real_Temp mpfr_exact X (ctx_at W2 0) = Some (\<lparr>f = Num (- 5), rc = 0\<rparr>, {})"
    by (simp_all add: X_def mpfr_set_q_def mpfr_exact_def)
  have cy: "GMPy_MPFR_From_Real_Temp mpfr_exact Y (ctx_at W1 0) = Some (\<lparr>f = Zero False, rc = 0\<rparr>, {})"
    "GMPy_MPFR_From_Real_Temp mpfr_exact Y (ctx_at W2 0) = Some (\<lparr>f = Zero False, rc = 0\<rparr>, {})"
    by (simp_all add: Y_def)
  have t: "TRAP_DIVZERO \<notin> traps (ctx_at W1 0)" "TRAP_DIVZERO \<in> traps (ctx_at W2 0)"
    by (simp_all add: W1_def W2_def world0_def context0_def ctx_at_def)
  have e1: "R1 = (fst R1, fst (snd R1), snd (snd R1))" and e2: "R2 = (fst R2, fst (snd R2), snd (snd R2))"
    by simp_all
  have "ret_values (fst R1) = Some (Inf True, NaN) \<and> divzero (ctx_at (snd (snd R1)) 0)"
    using Real_DivMod_zero_divisor [OF a(1) c(1) cx(1) _ cy(1) _ e1 [unfolded R1_def], of "- 5" False] t(1)
    by (simp add: R1_def)
  moreover have "fst R2 = Raised GMPyExc_DivZero (msg_mpfr '' division by zero in divmod'')"
    using Real_DivMod_zero_divisor [OF a(2) c(2) cx(2) _ cy(2) _ e2 [unfolded R2_def], of "- 5" False] t(2)
    by (simp add: R2_def)
  ultimately show ?thesis
    by (simp add: R1_def R2_def X_def Y_def W1_def W2_def)
qed

subsection \<open>Flags and traps after the computation\<close>

text \<open>
  C6. When Real divmod does not fail before the computation, the global floating-point
  flags at the end of the call are exactly the flags that computing the numeric result
  from the operand values raises, whatever flags were raised before the call; the
  underflow, overflow and inexact flags among them are or-ed into the flags of the
  context, and the call raises the error of the first of underflow, overflow, inexact
  that is both raised and trapped; only when there is none does it return the tuple,
  which is then the numeric result. In every case, failing calls included, the call
  owns no reference when it returns, no flag of the context that was set is cleared, a
  zero divisor leaves the divide-by-zero flag set, a NaN or infinite operand leaves the
  invalid flag set unless the call has failed on the divide-by-zero trap before, and
  the traps are unchanged.
\<close>

theorem Real_DivMod_merge_and_traps:
  assumes "alloc_ok w" and "IS_REAL x" and "IS_REAL y"
    and "c = CHECK_CONTEXT_SET_EXPONENT context w"
    and "GMPy_Real_DivMod L x y context w = (res, held, w')"
  shows "(if early_trap (traps (ctx_at w c)) (operand_value L (ctx_at w c) x)
               (operand_value L (ctx_at w c) y)
          then raised_exc res = Some GMPyExc_DivZero \<or> raised_exc res = Some GMPyExc_Invalid
          else (case numeric_result L (ctx_at w c) (operand_value L (ctx_at w c) x)
                       (operand_value L (ctx_at w c) y) of
                  (q, r, F) \<Rightarrow>
                    gmpfr_flags w' = F
                  \<and> underflow (ctx_at w' c) = (underflow (ctx_at w c) \<or> FLAG_UNDERFLOW \<in> F)
                  \<and> overflow (ctx_at w' c) = (overflow (ctx_at w c) \<or> FLAG_OVERFLOW \<in> F)
                  \<and> inexact (ctx_at w' c) = (inexact (ctx_at w c) \<or> FLAG_INEXACT \<in> F)
                  \<and> raised_exc res = trap_priority F (traps (ctx_at w c))
                  \<and> (if trap_priority F (traps (ctx_at w c)) = None
                      then res = Tuple (MPFR q) (MPFR r) else True)))
      \<and> held = []
      \<and> (underflow (ctx_at w c) \<longrightarrow> underflow (ctx_at w' c))
      \<and> (overflow (ctx_at w c) \<longrightarrow> overflow (ctx_at w' c))
      \<and> (inexact (ctx_at w c) \<longrightarrow> inexact (ctx_at w' c))
      \<and> (invalid (ctx_at w c) \<longrightarrow> invalid (ctx_at w' c))
      \<and> (erange (ctx_at w c) \<longrightarrow> erange (ctx_at w' c))
      \<and> (divzero (ctx_at w c) \<longrightarrow> divzero (ctx_at w' c))
      \<and> (mpfr_zero_p (operand_value L (ctx_at w c) y) \<longrightarrow> divzero (ctx_at w' c))
      \<and> (if mpfr_zero_p (operand_value L (ctx_at w c) y) \<and> TRAP_DIVZERO \<in> traps (ctx_at w c)
          then True
          else mpfr_nan_p (operand_value L (ctx_at w c) x) \<or> mpfr_nan_p (operand_value L (ctx_at w c) y)
                 \<or> mpfr_inf_p (operand_value L (ctx_at w c) x) \<or> mpfr_inf_p (operand_value L (ctx_at w c) y)
               \<longrightarrow> invalid (ctx_at w' c))
      \<and> traps (ctx_at w' c) = traps (ctx_at w c)"
proof -
  obtain X fx where cx: "GMPy_MPFR_From_Real_Temp L x (ctx_at w c) = Some (X, fx)"
    using conv_Some [OF assms(2)] by blast
  obtain Y fy where cy: "GMPy_MPFR_From_Real_Temp L y (ctx_at w c) = Some (Y, fy)"
    using conv_Some [OF assms(3)] by blast
  have vx: "operand_value L (ctx_at w c) x = f X" and vy: "operand_value L (ctx_at w c) y = f Y"
    by (simp_all add: operand_value_def cx cy)
  define T where "T = traps (ctx_at w c)"
  define w1 where "w1 = (if mpfr_zero_p (f Y)
      then ctx_upd c (\<lambda>g. g\<lparr>divzero := True\<rparr>) (raise_flags (fx \<union> fy) w)
      else raise_flags (fx \<union> fy) w)"
  have k1: "underflow (ctx_at w1 c) = underflow (ctx_at w c)"
    "overflow (ctx_at w1 c) = overflow (ctx_at w c)"
    "inexact (ctx_at w1 c) = inexact (ctx_at w c)"
    "traps (ctx_at w1 c) = T"
    "mpfr_zero_p (f Y) \<longrightarrow> divzero (ctx_at w1 c)"
    by (simp_all add: w1_def ctx_at_simps T_def)
  have eq: "(res, held, w') =
     (if mpfr_zero_p (f Y) \<and> TRAP_DIVZERO \<in> T then
        (Raised GMPyExc_DivZero (msg_mpfr '' division by zero in divmod''), [], w1)
      else (case Real_DivMod_compute L X Y c w1 of
              (Inl (e, m), w2) \<Rightarrow> (Raised e m, [], w2)
            | (Inr (quo, rem), w2) \<Rightarrow>
                Real_DivMod_finish L quo rem c [Result, Rem, Quo, TempX, TempY] w2))"
    using Real_DivMod_unfold [OF assms(1,4) cx cy w1_def] assms(5) by (simp add: T_def)
  have fr: "frame c w w'"
    using frame_Real [OF assms(5)] assms(4) by simp
  have sticky: "(underflow (ctx_at w c) \<longrightarrow> underflow (ctx_at w' c))
      \<and> (overflow (ctx_at w c) \<longrightarrow> overflow (ctx_at w' c))
      \<and> (inexact (ctx_at w c) \<longrightarrow> inexact (ctx_at w' c))
      \<and> (invalid (ctx_at w c) \<longrightarrow> invalid (ctx_at w' c))
      \<and> (erange (ctx_at w c) \<longrightarrow> erange (ctx_at w' c))
      \<and> (divzero (ctx_at w c) \<longrightarrow> divzero (ctx_at w' c))
      \<and> traps (ctx_at w' c) = traps (ctx_at w c)"
    using fr by (simp add: frame_def)
  have main: "(if early_trap T (f X) (f Y)
          then raised_exc res = Some GMPyExc_DivZero \<or> raised_exc res = Some GMPyExc_Invalid
          else (case numeric_result L (ctx_at w c) (f X) (f Y) of
                  (q, r, F) \<Rightarrow>
                    gmpfr_flags w' = F
                  \<and> underflow (ctx_at w' c) = (underflow (ctx_at w c) \<or> FLAG_UNDERFLOW \<in> F)
                  \<and> overflow (ctx_at w' c) = (overflow (ctx_at w c) \<or> FLAG_OVERFLOW \<in> F)
                  \<and> inexact (ctx_at w' c) = (inexact (ctx_at w c) \<or> FLAG_INEXACT \<in> F)
                  \<and> raised_exc res = trap_priority F T
                  \<and> (if trap_priority F T = None then res = Tuple (MPFR q) (MPFR r) else True)))
      \<and> held = [] \<and> (mpfr_zero_p (f Y) \<longrightarrow> divzero (ctx_at w' c))
      \<and> (if mpfr_zero_p (f Y) \<and> TRAP_DIVZERO \<in> T then True
          else mpfr_nan_p (f X) \<or> mpfr_nan_p (f Y) \<or> mpfr_inf_p (f X) \<or> mpfr_inf_p (f Y)
               \<longrightarrow> invalid (ctx_at w' c))"
  proof (cases "mpfr_zero_p (f Y) \<and> TRAP_DIVZERO \<in> T")
    case True
    then have "res = Raised GMPyExc_DivZero (msg_mpfr '' division by zero in divmod'')"
      and "held = []" and "w' = w1"
      using eq by simp_all
    with True k1 show ?thesis by (simp add: early_trap_def)
  next
    case False
    have eq2: "(res, held, w') =
        (case Real_DivMod_compute L X Y c w1 of
              (Inl (e, m), w2) \<Rightarrow> (Raised e m, [], w2)
            | (Inr (quo, rem), w2) \<Rightarrow>
                Real_DivMod_finish L quo rem c [Result, Rem, Quo, TempX, TempY] w2)"
      using eq by (simp only: if_not_P [OF False])
    obtain r w2 where cr: "Real_DivMod_compute L X Y c w1 = (r, w2)"
      by (cases "Real_DivMod_compute L X Y c w1")
    note cres = compute_result [OF cr]
    note ck = compute_keeps [OF cr]
    show ?thesis
    proof (cases r)
      case (Inl em)
      obtain e m where em: "em = (e, m)" by (cases em)
      have "res = Raised e m" and "held = []" and "w' = w2"
        using eq2 cr Inl em by simp_all
      moreover have "e = GMPyExc_Invalid" and "early_trap T (f X) (f Y)"
        using cres Inl em k1 by (auto simp add: early_trap_def)
      moreover have "mpfr_nan_p (f X) \<or> mpfr_nan_p (f Y) \<or> mpfr_inf_p (f X) \<or> mpfr_inf_p (f Y)
          \<longrightarrow> invalid (ctx_at w2 c)"
        using cres by simp
      ultimately show ?thesis using ck k1 False by simp
    next
      case (Inr p)
      obtain quo rem where p: "p = (quo, rem)" by (cases p)
      have fin: "Real_DivMod_finish L quo rem c [Result, Rem, Quo, TempX, TempY] w2 = (res, held, w')"
        using eq2 cr Inr p by simp
      have ne: "\<not> early_trap T (f X) (f Y)"
        using cres Inr p k1 False by (auto simp add: early_trap_def)
      have h: "held = []"
        using finish_result [OF fin] by (auto simp add: held_simps split: if_splits)
      have dz: "mpfr_zero_p (f Y) \<longrightarrow> divzero (ctx_at w' c)"
        using finish_divzero [OF fin] ck k1 by blast
      have iv: "mpfr_nan_p (f X) \<or> mpfr_nan_p (f Y) \<or> mpfr_inf_p (f X) \<or> mpfr_inf_p (f Y)
          \<longrightarrow> invalid (ctx_at w' c)"
        using cres frame_finish [OF frame_refl fin] by (simp add: frame_def)
      have f1: "frame c w w1"
        by (simp add: w1_def frame_steps frame_refl)
      have f2: "frame c w w2" using f1 cr by (rule frame_compute)
      have raw: "numeric_raw L (ctx_at w c) (f X) (f Y) = (quo, rem, gmpfr_flags w2)"
        using compute_raw [of L X Y c w1 quo rem w2] cr Inr p
          numeric_raw_cong [of "ctx_at w1 c" "ctx_at w c" L "f X" "f Y"] f1
        by (simp add: frame_def)
      have rn: "renormalize L (ctx_at w2 c) v = renormalize L (ctx_at w c) v" for v
        using f2 by (intro renormalize_cong) (simp_all add: frame_def)
      have nr: "numeric_result L (ctx_at w c) (f X) (f Y) =
          (fst (renormalize L (ctx_at w c) quo), fst (renormalize L (ctx_at w c) rem),
           gmpfr_flags w2 \<union> snd (renormalize L (ctx_at w c) rem)
             \<union> snd (renormalize L (ctx_at w c) quo))"
        by (simp add: numeric_result_def raw split: prod.splits)
      note fn = finish_numeric [OF fin refl, unfolded rn]
      show ?thesis
        using finish_result [OF fin] fn ck k1 ne h dz iv False
        by (simp add: nr)
    qed
  qed
  show ?thesis
    using main sticky unfolding vx vy T_def by blast
qed

theorem Real_DivMod_merge_and_traps_witness:
  "raised_exc (fst (GMPy_Real_DivMod (mpfr_coarse {FLAG_UNDERFLOW, FLAG_OVERFLOW, FLAG_INEXACT})
       (MPFR \<lparr>f = Num 7, rc = 0\<rparr>) (MPFR \<lparr>f = Num 2, rc = 0\<rparr>) None
       (world0 (context0\<lparr>traps := {TRAP_UNDERFLOW, TRAP_OVERFLOW, TRAP_INEXACT}\<rparr>))))
     = Some GMPyExc_Underflow
   \<and> underflow (ctx_at (snd (snd (GMPy_Real_DivMod (mpfr_coarse {FLAG_UNDERFLOW, FLAG_OVERFLOW, FLAG_INEXACT})
       (MPFR \<lparr>f = Num 7, rc = 0\<rparr>) (MPFR \<lparr>f = Num 2, rc = 0\<rparr>) None
       (world0 (context0\<lparr>traps := {TRAP_UNDERFLOW, TRAP_OVERFLOW, TRAP_INEXACT}\<rparr>))))) 0)
   \<and> overflow (ctx_at (snd (snd (GMPy_Real_DivMod (mpfr_coarse {FLAG_UNDERFLOW, FLAG_OVERFLOW, FLAG_INEXACT})
       (MPFR \<lparr>f = Num 7, rc = 0\<rparr>) (MPFR \<lparr>f = Num 2, rc = 0\<rparr>) None
       (world0 (context0\<lparr>traps := {TRAP_UNDERFLOW, TRAP_OVERFLOW, TRAP_INEXACT}\<rparr>))))) 0)
   \<and> inexact (ctx_at (snd (snd (GMPy_Real_DivMod (mpfr_coarse {FLAG_UNDERFLOW, FLAG_OVERFLOW, FLAG_INEXACT})
       (MPFR \<lparr>f = Num 7, rc = 0\<rparr>) (MPFR \<lparr>f = Num 2, rc = 0\<rparr>) None
       (world0 (context0\<lparr>traps := {TRAP_UNDERFLOW, TRAP_OVERFLOW, TRAP_INEXACT}\<rparr>))))) 0)
   \<and> raised_exc (fst (GMPy_Real_DivMod (mpfr_coarse {FLAG_OVERFLOW, FLAG_INEXACT})
       (MPFR \<lparr>f = Num 7, rc = 0\<rparr>) (MPFR \<lparr>f = Num 2, rc = 0\<rparr>) None
       (world0 (context0\<lparr>traps := {TRAP_UNDERFLOW, TRAP_INEXACT}\<rparr>))))
     = Some GMPyExc_Inexact
   \<and> fst (GMPy_Real_DivMod mpfr_exact
       (MPFR \<lparr>f = Num 6, rc = 0\<rparr>) (MPFR \<lparr>f = Num 2, rc = 0\<rparr>) None
       ((world0 (context0\<lparr>traps := {TRAP_INEXACT}\<rparr>))\<lparr>gmpfr_flags := {FLAG_INEXACT, FLAG_UNDERFLOW}\<rparr>))
     = Tuple (MPFR \<lparr>f = Num 3, rc = 0\<rparr>) (MPFR \<lparr>f = Zero True, rc = 0\<rparr>)
   \<and> \<not> inexact (ctx_at (snd (snd (GMPy_Real_DivMod mpfr_exact
       (MPFR \<lparr>f = Num 6, rc = 0\<rparr>) (MPFR \<lparr>f = Num 2, rc = 0\<rparr>) None
       ((world0 (context0\<lparr>traps := {TRAP_INEXACT}\<rparr>))\<lparr>gmpfr_flags := {FLAG_INEXACT, FLAG_UNDERFLOW}\<rparr>)))) 0)
   \<and> gmpfr_flags (snd (snd (GMPy_Real_DivMod mpfr_exact
       (MPFR \<lparr>f = Num 6, rc = 0\<rparr>) (MPFR \<lparr>f = Num 2, rc = 0\<rparr>) None
       ((world0 (context0\<lparr>traps := {TRAP_INEXACT}\<rparr>))\<lparr>gmpfr_flags := {FLAG_INEXACT, FLAG_UNDERFLOW}\<rparr>)))) = {}"
proof -
  define L1 where "L1 = mpfr_coarse {FLAG_UNDERFLOW, FLAG_OVERFLOW, FLAG_INEXACT}"
  define L2 where "L2 = mpfr_coarse {FLAG_OVERFLOW, FLAG_INEXACT}"
  define X where "X = MPFR \<lparr>f = Num 7, rc = 0\<rparr>"
  define X6 where "X6 = MPFR \<lparr>f = Num 6, rc = 0\<rparr>"
  define Y where "Y = MPFR \<lparr>f = Num 2, rc = 0\<rparr>"
  define W1 where "W1 = world0 (context0\<lparr>traps := {TRAP_UNDERFLOW, TRAP_OVERFLOW, TRAP_INEXACT}\<rparr>)"
  define W2 where "W2 = world0 (context0\<lparr>traps := {TRAP_UNDERFLOW, TRAP_INEXACT}\<rparr>)"
  define W3 where "W3 = (world0 (context0\<lparr>traps := {TRAP_INEXACT}\<rparr>))\<lparr>gmpfr_flags := {FLAG_INEXACT, FLAG_UNDERFLOW}\<rparr>"
  define R1 where "R1 = GMPy_Real_DivMod L1 X Y None W1"
  define R2 where "R2 = GMPy_Real_DivMod L2 X Y None W2"
  define R3 where "R3 = GMPy_Real_DivMod mpfr_exact X6 Y None W3"
  have a: "alloc_ok W1" "alloc_ok W2" "alloc_ok W3" by (simp_all add: W1_def W2_def W3_def world0_def)
  have c: "0 = CHECK_CONTEXT_SET_EXPONENT None W1" "0 = CHECK_CONTEXT_SET_EXPONENT None W2"
    "0 = CHECK_CONTEXT_SET_EXPONENT None W3"
    by (simp_all add: CHECK_CONTEXT_SET_EXPONENT_def W1_def W2_def W3_def world0_def)
  have r: "IS_REAL X" "IS_REAL Y" "IS_REAL X6" by (simp_all add: IS_REAL_def X_def Y_def X6_def)
  have v: "operand_value L g X = Num 7" "operand_value L g Y = Num 2" "operand_value L g X6 = Num 6" for L g
    by (simp_all add: operand_value_def X_def Y_def X6_def)
  have t: "traps (ctx_at W1 0) = {TRAP_UNDERFLOW, TRAP_OVERFLOW, TRAP_INEXACT}"
    "traps (ctx_at W2 0) = {TRAP_UNDERFLOW, TRAP_INEXACT}"
    "traps (ctx_at W3 0) = {TRAP_INEXACT}"
    by (simp_all add: W1_def W2_def W3_def world0_def context0_def ctx_at_def)
  have o: "\<not> underflow (ctx_at W1 0)" "\<not> overflow (ctx_at W1 0)" "\<not> inexact (ctx_at W1 0)"
    "\<not> inexact (ctx_at W3 0)"
    by (simp_all add: W1_def W3_def world0_def context0_def ctx_at_def)
  have n1: "numeric_result L1 (ctx_at W1 0) (Num 7) (Num 2)
      = (\<lparr>f = Num 3, rc = 0\<rparr>, \<lparr>f = Num 1, rc = 0\<rparr>, {FLAG_UNDERFLOW, FLAG_OVERFLOW, FLAG_INEXACT})"
    unfolding L1_def W1_def by code_simp
  have n2: "numeric_result L2 (ctx_at W2 0) (Num 7) (Num 2)
      = (\<lparr>f = Num 3, rc = 0\<rparr>, \<lparr>f = Num 1, rc = 0\<rparr>, {FLAG_OVERFLOW, FLAG_INEXACT})"
    unfolding L2_def W2_def by code_simp
  have n3: "numeric_result mpfr_exact (ctx_at W3 0) (Num 6) (Num 2)
      = (\<lparr>f = Num 3, rc = 0\<rparr>, \<lparr>f = Zero True, rc = 0\<rparr>, {})"
    unfolding W3_def by code_simp
  have e1: "R1 = (fst R1, fst (snd R1), snd (snd R1))" and e2: "R2 = (fst R2, fst (snd R2), snd (snd R2))"
    and e3: "R3 = (fst R3, fst (snd R3), snd (snd R3))"
    by simp_all
  have "raised_exc (fst R1) = Some GMPyExc_Underflow \<and> underflow (ctx_at (snd (snd R1)) 0)
      \<and> overflow (ctx_at (snd (snd R1)) 0) \<and> inexact (ctx_at (snd (snd R1)) 0)"
    using Real_DivMod_merge_and_traps [OF a(1) r(1,2) c(1) e1 [unfolded R1_def]]
    by (simp add: v t n1 early_trap_def trap_priority_def flip: R1_def)
  moreover have "raised_exc (fst R2) = Some GMPyExc_Inexact"
    using Real_DivMod_merge_and_traps [OF a(2) r(1,2) c(2) e2 [unfolded R2_def]]
    by (simp add: v t n2 early_trap_def trap_priority_def flip: R2_def)
  moreover have "fst R3 = Tuple (MPFR \<lparr>f = Num 3, rc = 0\<rparr>) (MPFR \<lparr>f = Zero True, rc = 0\<rparr>)
      \<and> \<not> inexact (ctx_at (snd (snd R3)) 0) \<and> gmpfr_flags (snd (snd R3)) = {}"
    using Real_DivMod_merge_and_traps [OF a(3) r(3,2) c(3) e3 [unfolded R3_def]] o(4)
    by (simp add: v t n3 early_trap_def trap_priority_def flip: R3_def)
  ultimately show ?thesis
    by (simp add: R1_def R2_def R3_def L1_def L2_def X_def X6_def Y_def W1_def W2_def W3_def)
qed

section \<open>The dispatchers\<close>

lemmas type_defs = IS_INTEGER_def IS_RATIONAL_def IS_REAL_def IS_COMPLEX_def

text \<open>
  C7, as the code has it: for an operand that is not a number \<open>GMPy_Number_DivMod\<close>
  raises a type error; it does not return the not-implemented sentinel.
\<close>

theorem dispatch_no_sentinel_counterexample:
  "first_common (PyStr ''abc'') (MPZ 1) = None
   \<and> GMPy_Number_DivMod mpfr_exact (PyStr ''abc'') (MPZ 1) None (world0 context0)
       = (Raised TypeError ''divmod() argument type not supported'', [], world0 context0)
   \<and> fst (GMPy_Number_DivMod mpfr_exact (PyStr ''abc'') (MPZ 1) None (world0 context0))
       \<noteq> NotImplemented"
  by (simp add: GMPy_Number_DivMod_def first_common_def type_defs)

text \<open>
  C7, amended. Both dispatchers test the layers in the order Integer, Rational, Real,
  Complex and hand the operands to the algorithm of the first layer both satisfy. When
  there is none, the operator dispatcher \<open>GMPy_mpz_divmod_fast\<close> returns the
  not-implemented sentinel, and \<open>GMPy_Number_DivMod\<close> fails with the type error
  "divmod() argument type not supported".
\<close>

theorem dispatch_order:
  "GMPy_mpz_divmod_fast L x y w =
     (case first_common x y of
        Some Integer_layer \<Rightarrow> GMPy_Integer_DivMod x y None w
      | Some Rational_layer \<Rightarrow> GMPy_Rational_DivMod x y None w
      | Some Real_layer \<Rightarrow> GMPy_Real_DivMod L x y None w
      | Some Complex_layer \<Rightarrow> GMPy_Complex_DivMod x y None w
      | None \<Rightarrow> (NotImplemented, [], w))
   \<and> GMPy_Number_DivMod L x y context w =
     (case first_common x y of
        Some Integer_layer \<Rightarrow> GMPy_Integer_DivMod x y context w
      | Some Rational_layer \<Rightarrow> GMPy_Rational_DivMod x y context w
      | Some Real_layer \<Rightarrow> GMPy_Real_DivMod L x y context w
      | Some Complex_layer \<Rightarrow> GMPy_Complex_DivMod x y context w
      | None \<Rightarrow> (Raised TypeError ''divmod() argument type not supported'', [], w))"
proof -
  have fast: "GMPy_mpz_divmod_fast L x y w =
     (case first_common x y of
        Some Integer_layer \<Rightarrow> GMPy_Integer_DivMod x y None w
      | Some Rational_layer \<Rightarrow> GMPy_Rational_DivMod x y None w
      | Some Real_layer \<Rightarrow> GMPy_Real_DivMod L x y None w
      | Some Complex_layer \<Rightarrow> GMPy_Complex_DivMod x y None w
      | None \<Rightarrow> (NotImplemented, [], w))"
    unfolding GMPy_mpz_divmod_fast_def first_common_def by simp
  have number: "GMPy_Number_DivMod L x y context w =
     (case first_common x y of
        Some Integer_layer \<Rightarrow> GMPy_Integer_DivMod x y context w
      | Some Rational_layer \<Rightarrow> GMPy_Rational_DivMod x y context w
      | Some Real_layer \<Rightarrow> GMPy_Real_DivMod L x y context w
      | Some Complex_layer \<Rightarrow> GMPy_Complex_DivMod x y context w
      | None \<Rightarrow> (Raised TypeError ''divmod() argument type not supported'', [], w))"
    unfolding GMPy_Number_DivMod_def first_common_def by simp
  from fast number show ?thesis by (rule conjI)
qed

text \<open>
  C9. Complex divmod fails with the type error "can't take floor or mod of complex
  number." for all operands, and so does every dispatcher on operands whose first common
  layer is Complex. Nothing is computed: the state, context flags included, is returned
  as it was, and no reference is owned.
\<close>

theorem Complex_DivMod_always_fails:
  "GMPy_Complex_DivMod x y context w
     = (Raised TypeError ''can't take floor or mod of complex number.'', [], w)
   \<and> GMPy_mpc_divmod_fast x y w
     = (Raised TypeError ''can't take floor or mod of complex number.'', [], w)
   \<and> (if first_common x y = Some Complex_layer
       then GMPy_Number_DivMod L x y context w
              = (Raised TypeError ''can't take floor or mod of complex number.'', [], w)
          \<and> GMPy_mpz_divmod_fast L x y w
              = (Raised TypeError ''can't take floor or mod of complex number.'', [], w)
          \<and> GMPy_mpq_divmod_fast L x y w
              = (Raised TypeError ''can't take floor or mod of complex number.'', [], w)
          \<and> GMPy_mpfr_divmod_fast L x y w
              = (Raised TypeError ''can't take floor or mod of complex number.'', [], w)
       else True)"
  by (simp add: GMPy_Complex_DivMod_def GMPy_mpc_divmod_fast_def GMPy_Number_DivMod_def
      GMPy_mpz_divmod_fast_def GMPy_mpq_divmod_fast_def GMPy_mpfr_divmod_fast_def
      first_common_def split: if_splits)

theorem Complex_DivMod_always_fails_witness:
  "first_common (MPC \<lparr>f = Num 1, rc = 0\<rparr> \<lparr>f = Num 2, rc = 0\<rparr>) (MPZ 3) = Some Complex_layer
   \<and> GMPy_Number_DivMod mpfr_exact (MPC \<lparr>f = Num 1, rc = 0\<rparr> \<lparr>f = Num 2, rc = 0\<rparr>) (MPZ 3) None
        (world0 context0)
       = (Raised TypeError ''can't take floor or mod of complex number.'', [], world0 context0)"
proof -
  have a: "first_common (MPC \<lparr>f = Num 1, rc = 0\<rparr> \<lparr>f = Num 2, rc = 0\<rparr>) (MPZ 3) = Some Complex_layer"
    by (simp add: first_common_def type_defs)
  show ?thesis
    using a Complex_DivMod_always_fails [of "MPC \<lparr>f = Num 1, rc = 0\<rparr> \<lparr>f = Num 2, rc = 0\<rparr>"
        "MPZ 3" None "world0 context0" mpfr_exact]
    by simp
qed

section \<open>The context-bound entry point\<close>

lemma Integer_world: "GMPy_Integer_DivMod x y context w = (res, held, w') \<Longrightarrow> w' = w"
  unfolding GMPy_Integer_DivMod_def Let_def
  by (auto split: if_splits prod.splits option.splits)

lemma Rational_world: "GMPy_Rational_DivMod x y context w = (res, held, w') \<Longrightarrow> w' = w"
  unfolding GMPy_Rational_DivMod_def Let_def
  by (auto split: if_splits prod.splits option.splits)

lemma frame_Number:
  assumes "GMPy_Number_DivMod L x y context w = (res, held, w')"
  shows "frame (CHECK_CONTEXT_SET_EXPONENT context w) w w'"
proof -
  have "w' = w \<or> GMPy_Real_DivMod L x y context w = (res, held, w')"
    using assms unfolding GMPy_Number_DivMod_def GMPy_Complex_DivMod_def
    by (auto split: if_splits dest: Integer_world Rational_world)
  then show ?thesis
    by (auto intro: frame_refl frame_Real)
qed

text \<open>
  C8. A call of the context-bound divmod with two arguments on a read-only context
  leaves that context object as it was. A clone is allocated at a new address,
  writable and with one reference; the dispatcher runs with the clone, whose flags
  hold the updates of the call; at the end the reference count of the clone is 0. On a
  writable context no clone is made: the dispatcher runs with the caller's context,
  which holds the updates, and its reference count is what it was. No other context
  object changes.
\<close>

theorem Context_DivMod_readonly:
  assumes "alloc_ok w" and "a < brk w"
    and "GMPy_Context_DivMod L (Some a) [x, y] w = (res, held, w')"
  shows "(if readonly (ctx (ctxts w a)) then
            ctxts w' a = ctxts w a
          \<and> brk w' = brk w + 1
          \<and> ob_refcnt (ctxts w' (brk w)) = 0
          \<and> (let (k, w1) = GMPy_CTXT_Copy a w;
                  (res2, held2, w2) = GMPy_Number_DivMod L x y (Some k) w1
              in k = brk w \<and> k \<noteq> a \<and> \<not> readonly (ctx (ctxts w1 k)) \<and> ob_refcnt (ctxts w1 k) = 1
                 \<and> res = res2 \<and> held = held2 \<and> ctx (ctxts w' k) = ctx (ctxts w2 k))
          else
            brk w' = brk w
          \<and> ob_refcnt (ctxts w' a) = ob_refcnt (ctxts w a)
          \<and> (let (res2, held2, w2) = GMPy_Number_DivMod L x y (Some a) (Py_INCREF_ctxt a w)
              in res = res2 \<and> held = held2 \<and> ctx (ctxts w' a) = ctx (ctxts w2 a)))
      \<and> (\<forall>b. b \<noteq> a \<and> b \<noteq> brk w \<longrightarrow> ctxts w' b = ctxts w b)"
proof (cases "readonly (ctx (ctxts w a))")
  case True
  define k where "k = brk w"
  define w1 where "w1 = snd (GMPy_CTXT_Copy a w)"
  have copy: "GMPy_CTXT_Copy a w = (k, w1)"
    by (simp add: GMPy_CTXT_Copy_def k_def w1_def)
  have ka: "k \<noteq> a" using assms(2) by (simp add: k_def)
  have w1: "ctxts w1 a = ctxts w a" "brk w1 = brk w + 1" "\<not> readonly (ctx (ctxts w1 k))"
    "ob_refcnt (ctxts w1 k) = 1" "\<forall>b. b \<noteq> k \<longrightarrow> ctxts w1 b = ctxts w b"
    using ka by (simp_all add: w1_def GMPy_CTXT_Copy_def k_def)
  obtain res2 held2 w2 where n: "GMPy_Number_DivMod L x y (Some k) w1 = (res2, held2, w2)"
    by (cases "GMPy_Number_DivMod L x y (Some k) w1") auto
  have fr: "frame k w1 w2"
    using frame_Number [OF n] by (simp add: CHECK_CONTEXT_SET_EXPONENT_def)
  have out: "res = res2" "held = held2" "w' = Py_DECREF_ctxt k w2"
    using assms(1,3) True copy n by (simp_all add: GMPy_Context_DivMod_def)
  have "ctxts w' a = ctxts w a"
    using fr w1 ka by (simp add: out Py_DECREF_ctxt_def frame_def)
  moreover have "brk w' = brk w + 1"
    using fr w1 by (simp add: out Py_DECREF_ctxt_def frame_def)
  moreover have "ob_refcnt (ctxts w' k) = 0"
    using fr w1 by (simp add: out Py_DECREF_ctxt_def frame_def)
  moreover have "ctx (ctxts w' k) = ctx (ctxts w2 k)"
    by (simp add: out Py_DECREF_ctxt_def)
  moreover have "\<forall>b. b \<noteq> a \<and> b \<noteq> brk w \<longrightarrow> ctxts w' b = ctxts w b"
    using fr w1 by (simp add: out Py_DECREF_ctxt_def frame_def k_def)
  ultimately show ?thesis
    using True copy n out ka w1 by (simp add: k_def)
next
  case False
  define w1 where "w1 = Py_INCREF_ctxt a w"
  obtain res2 held2 w2 where n: "GMPy_Number_DivMod L x y (Some a) w1 = (res2, held2, w2)"
    by (cases "GMPy_Number_DivMod L x y (Some a) w1") auto
  have fr: "frame a w1 w2"
    using frame_Number [OF n] by (simp add: CHECK_CONTEXT_SET_EXPONENT_def)
  have w1: "brk w1 = brk w" "ob_refcnt (ctxts w1 a) = ob_refcnt (ctxts w a) + 1"
    "\<forall>b. b \<noteq> a \<longrightarrow> ctxts w1 b = ctxts w b"
    by (simp_all add: w1_def Py_INCREF_ctxt_def)
  have out: "res = res2" "held = held2" "w' = Py_DECREF_ctxt a w2"
    using assms(3) False n by (simp_all add: GMPy_Context_DivMod_def w1_def)
  have "brk w' = brk w"
    using fr w1 by (simp add: out Py_DECREF_ctxt_def frame_def)
  moreover have "ob_refcnt (ctxts w' a) = ob_refcnt (ctxts w a)"
    using fr w1 by (simp add: out Py_DECREF_ctxt_def frame_def)
  moreover have "ctx (ctxts w' a) = ctx (ctxts w2 a)"
    by (simp add: out Py_DECREF_ctxt_def)
  moreover have "\<forall>b. b \<noteq> a \<and> b \<noteq> brk w \<longrightarrow> ctxts w' b = ctxts w b"
    using fr w1 by (simp add: out Py_DECREF_ctxt_def frame_def)
  ultimately show ?thesis
    using False n out by (simp add: w1_def)
qed

theorem Context_DivMod_readonly_witness:
  "ctxts (snd (snd (GMPy_Context_DivMod mpfr_exact (Some 0)
       [MPFR \<lparr>f = Num 5, rc = 0\<rparr>, MPFR \<lparr>f = Zero False, rc = 0\<rparr>]
       (world0 (context0\<lparr>readonly := True\<rparr>))))) 0
     = ctxts (world0 (context0\<lparr>readonly := True\<rparr>)) 0
   \<and> ob_refcnt (ctxts (snd (snd (GMPy_Context_DivMod mpfr_exact (Some 0)
       [MPFR \<lparr>f = Num 5, rc = 0\<rparr>, MPFR \<lparr>f = Zero False, rc = 0\<rparr>]
       (world0 (context0\<lparr>readonly := True\<rparr>))))) 1) = 0
   \<and> divzero (ctx (ctxts (snd (snd (GMPy_Context_DivMod mpfr_exact (Some 0)
       [MPFR \<lparr>f = Num 5, rc = 0\<rparr>, MPFR \<lparr>f = Zero False, rc = 0\<rparr>]
       (world0 (context0\<lparr>readonly := True\<rparr>))))) 1))
   \<and> divzero (ctx (ctxts (snd (snd (GMPy_Context_DivMod mpfr_exact (Some 0)
       [MPFR \<lparr>f = Num 5, rc = 0\<rparr>, MPFR \<lparr>f = Zero False, rc = 0\<rparr>]
       (world0 context0)))) 0))"
proof -
  define X where "X = MPFR \<lparr>f = Num 5, rc = 0\<rparr>"
  define Y where "Y = MPFR \<lparr>f = Zero False, rc = 0\<rparr>"
  define W1 where "W1 = world0 (context0\<lparr>readonly := True\<rparr>)"
  define W2 where "W2 = world0 context0"
  define R1 where "R1 = GMPy_Context_DivMod mpfr_exact (Some 0) [X, Y] W1"
  define R2 where "R2 = GMPy_Context_DivMod mpfr_exact (Some 0) [X, Y] W2"
  have a: "alloc_ok W1" "alloc_ok W2" by (simp_all add: W1_def W2_def world0_def)
  have b: "0 < brk W1" "0 < brk W2" "brk W1 = 1" by (simp_all add: W1_def W2_def world0_def)
  have ro: "readonly (ctx (ctxts W1 0))" "\<not> readonly (ctx (ctxts W2 0))"
    by (simp_all add: W1_def W2_def world0_def context0_def)
  have e1: "R1 = (fst R1, fst (snd R1), snd (snd R1))" and e2: "R2 = (fst R2, fst (snd R2), snd (snd R2))"
    by simp_all
  have d1: "divzero (ctx (ctxts (snd (snd R1)) 1))"
    unfolding R1_def X_def Y_def W1_def by code_simp
  have d2: "divzero (ctx (ctxts (snd (snd R2)) 0))"
    unfolding R2_def X_def Y_def W2_def by code_simp
  have "ctxts (snd (snd R1)) 0 = ctxts W1 0 \<and> ob_refcnt (ctxts (snd (snd R1)) 1) = 0"
    using Context_DivMod_readonly [OF a(1) b(1) e1 [unfolded R1_def]] ro(1) b(3) by (simp add: R1_def)
  moreover have "brk (snd (snd R2)) = brk W2"
    using Context_DivMod_readonly [OF a(2) b(2) e2 [unfolded R2_def]] ro(2) by (simp add: R2_def)
  ultimately show ?thesis
    using d1 d2 by (simp add: R1_def R2_def X_def Y_def W1_def W2_def)
qed

section \<open>The not-implemented exit\<close>





end
